theory Spec2Isabelle
  imports Complex_Main "HOL-Library.Sublist" "HOL-Library.Log_Nat"
begin

section \<open>JavaScript values\<close>

text \<open>
  The values the front end handles. A finite number is the real it is equal to. A literal
  that is only stored and passed on is written as it stands in the source; where the code
  computes with numbers or compares them with a literal, in the styling of the graph, the
  literal is the double it denotes and the arithmetic is that of doubles (see below).
  \<open>JNative\<close> stands for an object or a function that the engine itself provides,
  named by its path; the members every object literal inherits from \<open>Object.prototype\<close> are of
  this kind.
\<close>

datatype jsval =
    JUndefined
  | JNull
  | JBool bool
  | JNum real
  | JStr string
  | JArr "jsval list"
  | JObj "(string \<times> jsval) list"
  | JNative string

text \<open>ToBoolean, as \<open>!x\<close>, \<open>x || y\<close> and \<open>if (x)\<close> apply it.\<close>

fun truthy :: "jsval \<Rightarrow> bool" where
  "truthy JUndefined = False"
| "truthy JNull = False"
| "truthy (JBool b) = b"
| "truthy (JNum r) = (r \<noteq> 0)"
| "truthy (JStr s) = (s \<noteq> [])"
| "truthy (JArr xs) = True"
| "truthy (JObj kvs) = True"
| "truthy (JNative n) = True"

definition js_or :: "jsval \<Rightarrow> jsval \<Rightarrow> jsval" where
  "js_or a b = (if truthy a then a else b)"

text \<open>
  The members of \<open>Object.prototype\<close>. An object literal has this object as its prototype, so
  a property read that finds no own property continues here.
\<close>

definition Object_prototype :: "(string \<times> jsval) list" where
  "Object_prototype =
    [(''constructor'', JNative ''Object''),
     (''__defineGetter__'', JNative ''Object.prototype.__defineGetter__''),
     (''__defineSetter__'', JNative ''Object.prototype.__defineSetter__''),
     (''hasOwnProperty'', JNative ''Object.prototype.hasOwnProperty''),
     (''__lookupGetter__'', JNative ''Object.prototype.__lookupGetter__''),
     (''__lookupSetter__'', JNative ''Object.prototype.__lookupSetter__''),
     (''isPrototypeOf'', JNative ''Object.prototype.isPrototypeOf''),
     (''propertyIsEnumerable'', JNative ''Object.prototype.propertyIsEnumerable''),
     (''toString'', JNative ''Object.prototype.toString''),
     (''valueOf'', JNative ''Object.prototype.valueOf''),
     (''__proto__'', JNative ''Object.prototype''),
     (''toLocaleString'', JNative ''Object.prototype.toLocaleString'')]"

text \<open>\<open>obj[key]\<close> on an object literal with the own properties \<open>own\<close>.\<close>

definition get_property :: "(string \<times> jsval) list \<Rightarrow> string \<Rightarrow> jsval" where
  "get_property own key =
     (case map_of own key of
        Some v \<Rightarrow> v
      | None \<Rightarrow> (case map_of Object_prototype key of Some v \<Rightarrow> v | None \<Rightarrow> JUndefined))"

section \<open>Double arithmetic\<close>

text \<open>
  A finite JavaScript number is a double: a real of the form \<open>m * 2 powi q\<close> with an integer
  \<open>m\<close> of at most 53 bits and \<open>q \<ge> -1074\<close>. It is modelled as that real. Every arithmetic
  operation gives the exact result rounded to the nearest double, a tie going to the double
  whose \<open>m\<close> is even.

  \<open>binade x\<close> is the exponent \<open>e\<close> with \<open>2 powi e \<le> x < 2 powi (e + 1)\<close>, for \<open>x > 0\<close>.
  Doubles in that binade are \<open>2 powi (e - 52)\<close> apart, and \<open>2 powi (-1074)\<close> apart below the
  normal range. From \<open>2 ^ 1024\<close> on the engine gives \<open>Infinity\<close>, and it has \<open>NaN\<close>; the
  reals have neither, and what is proved of the arithmetic is stated below that bound.
\<close>

definition round_half_even :: "real \<Rightarrow> int" where
  "round_half_even x =
     (let f = \<lfloor>x\<rfloor>; d = x - of_int f
      in if d < 1 / 2 then f
         else if 1 / 2 < d then f + 1
         else if even f then f else f + 1)"

definition binade :: "real \<Rightarrow> int" where
  "binade x =
     (if 1 \<le> x then bitlen \<lfloor>x\<rfloor> - 1
      else (let k = bitlen \<lfloor>1 / x\<rfloor> - 1
            in if 1 / x = 2 powi k then - k else - k - 1))"

text \<open>The exponent of the spacing of doubles around \<open>x\<close>.\<close>

definition ulp_exp :: "real \<Rightarrow> int" where
  "ulp_exp x = max (binade \<bar>x\<bar> - 52) (- 1074)"

definition nearest_double :: "real \<Rightarrow> real" where
  "nearest_double x =
     (if x = 0 then 0
      else (let q = ulp_exp x
            in of_int (round_half_even (x / 2 powi q)) * 2 powi q))"

definition is_double :: "real \<Rightarrow> bool" where
  "is_double x = (nearest_double x = x \<and> \<bar>x\<bar> < 2 ^ 1024)"

text \<open>A decimal literal of the source denotes the double nearest to it.\<close>

definition lit :: "real \<Rightarrow> real" where
  "lit x = nearest_double x"

text \<open>\<open>a + b\<close> and \<open>a * b\<close> on numbers.\<close>

definition js_add :: "real \<Rightarrow> real \<Rightarrow> real" where
  "js_add a b = nearest_double (a + b)"

definition js_mul :: "real \<Rightarrow> real \<Rightarrow> real" where
  "js_mul a b = nearest_double (a * b)"

section \<open>Link styling (synergy\_graph.js)\<close>

definition getLinkColor :: "real \<Rightarrow> string" where
  "getLinkColor v =
     (if v > lit 0.8 then ''#00c896''
      else if v > lit 0.6 then ''#0066cc''
      else if v > lit 0.4 then ''#ffaa00''
      else ''#ff6b35'')"

definition getLinkWidth :: "real \<Rightarrow> real" where
  "getLinkWidth v = js_add 1 (js_mul v 5)"

text \<open>
  The values for which \<open>getLinkWidth\<close> stays finite: five times the value and one more are
  below the largest double.
\<close>

definition no_overflow :: "real \<Rightarrow> bool" where
  "no_overflow v = (\<bar>v\<bar> \<le> 2 ^ 1021)"

section \<open>The page, the network and the console\<close>

text \<open>
  A template literal is kept as the list of its parts: the literal text and the interpolated
  values, in order. The text the engine's ToString gives an interpolated value is not modelled.
\<close>

datatype part = Lit string | Val jsval

type_synonym template = "part list"

text \<open>An element made by \<open>document.createElement\<close> and appended to a parent.\<close>

datatype child = Child (c_tag: string) (c_className: string) (c_innerHTML: template)

record element =
  el_value :: string
  el_className :: string
  el_innerHTML :: template
  el_children :: "child list"
  el_scrollTop :: int

datatype js_error = TypeError string | SyntaxError string

fun message :: "js_error \<Rightarrow> string" where
  "message (TypeError m) = m"
| "message (SyntaxError m) = m"

text \<open>
  A request as \<open>fetch\<close> is given it; \<open>body\<close> is the value handed to \<open>JSON.stringify\<close>.
\<close>

record request =
  url :: string
  http_method :: string
  headers :: "(string \<times> string) list"
  body :: "jsval option"

text \<open>
  What a fetch comes back with: the promise rejects (\<open>NetFail\<close>), or it resolves to a
  response with its \<open>ok\<close> flag and what \<open>response.json()\<close> gives: \<open>Inl\<close> when the body
  is not JSON and the parse rejects, \<open>Inr\<close> the parsed value.
\<close>

datatype fetch_outcome = NetFail string | Response bool "string + jsval"

datatype event =
    Fetch request
  | ConsoleLog "jsval list"
  | ConsoleError string js_error
  | Timeout nat
  | Listen nat string

text \<open>
  The world a function runs in. Elements live in a heap, by address; the three lookups are the
  document's answers to \<open>document.getElementById\<close>, \<open>document.querySelector\<close> and
  \<open>element.querySelector\<close> (\<open>None\<close> is \<open>null\<close>); \<open>w_scrollHeight\<close> is the layout
  engine's scroll height of an element; \<open>w_net k\<close> is the outcome of the \<open>k\<close>-th fetch
  issued; \<open>w_trace\<close> lists the effects outside the page, in order: requests sent, console
  lines, timers set, listeners attached.
\<close>

record world =
  w_getElementById :: "string \<Rightarrow> nat option"
  w_querySelector :: "template \<Rightarrow> nat option"
  w_querySelectorIn :: "nat \<Rightarrow> string \<Rightarrow> nat option"
  w_heap :: "nat \<Rightarrow> element"
  w_scrollHeight :: "element \<Rightarrow> int"
  w_net :: "nat \<Rightarrow> fetch_outcome"
  w_trace :: "event list"

text \<open>
  A computation returns a value or throws, and leaves a world behind either way. For an
  \<open>async\<close> function the thrown error is the rejection of its promise, and the function is
  run from its call to its end in one piece: what other handlers do to the page while it awaits
  is not modelled.
\<close>

type_synonym 'a io = "world \<Rightarrow> (js_error + 'a) \<times> world"

definition ret :: "'a \<Rightarrow> 'a io" where
  "ret x = (\<lambda>w. (Inr x, w))"

definition throw :: "js_error \<Rightarrow> 'a io" where
  "throw e = (\<lambda>w. (Inl e, w))"

definition bind :: "'a io \<Rightarrow> ('a \<Rightarrow> 'b io) \<Rightarrow> 'b io" where
  "bind m f = (\<lambda>w. case m w of (Inl e, w') \<Rightarrow> (Inl e, w') | (Inr x, w') \<Rightarrow> f x w')"

definition try_catch :: "'a io \<Rightarrow> (js_error \<Rightarrow> 'a io) \<Rightarrow> 'a io" where
  "try_catch m h = (\<lambda>w. case m w of (Inl e, w') \<Rightarrow> h e w' | (Inr x, w') \<Rightarrow> (Inr x, w'))"

definition emit :: "event \<Rightarrow> unit io" where
  "emit ev = (\<lambda>w. (Inr (), w\<lparr>w_trace := w_trace w @ [ev]\<rparr>))"

fun is_fetch :: "event \<Rightarrow> bool" where
  "is_fetch (Fetch r) = True"
| "is_fetch _ = False"

fun requests_of :: "event list \<Rightarrow> request list" where
  "requests_of [] = []"
| "requests_of (Fetch r # evs) = r # requests_of evs"
| "requests_of (_ # evs) = requests_of evs"

text \<open>\<open>sleep(ms)\<close> of demo.js: a promise that a timer of \<open>ms\<close> milliseconds resolves.\<close>

definition sleep :: "nat \<Rightarrow> unit io" where
  "sleep ms = emit (Timeout ms)"

section \<open>Mock data generators (demo.js)\<close>











definition narratives :: "(string \<times> jsval) list" where
  "narratives =
    [(''synergy'', JStr ''Your synergy with Player C peaked in patch 14.20, driven by coordinated objective control and complementary champion pools. Your duo win rate increased by 15% after adopting scaling compositions, demonstrating strong adaptability to the mid-game meta shift.''),
     (''adaptation'', JStr ''You adapted to the latest ADC patch changes faster than 78% of players in your MMR bracket. Your adaptation speed improved from 2.3 patches to 1.8 patches, showing enhanced meta awareness and champion pool flexibility.''),
     (''meta'', JStr ''After patch 14.19 when assassins fell out of favor, your team successfully shifted toward objective-based compositions. This transition was 40% faster than similar MMR teams, resulting in a 12% win rate improvement over the following 30 games.''),
     (''season'', JStr (''This season, your squad evolved from struggling in early-mid meta transitions to mastering adaptive drafts by season'' @ [CHR 0x27] @ ''s end. From your initial 48% win rate in patch 14.15 to your current 59% in patch 14.21, you demonstrated a 22% performance improvement driven by stronger synergy development and faster meta adaptation.''))]"

definition mockNarrative :: "string \<Rightarrow> jsval io" where
  "mockNarrative insightType =
     bind (sleep 500) (\<lambda>_.
       ret (js_or (get_property narratives insightType) (JStr ''Generating narrative insight...'')))"





section \<open>DOM and network primitives\<close>

definition null_read :: js_error where
  "null_read = TypeError ''Cannot read properties of null''"

definition null_write :: js_error where
  "null_write = TypeError ''Cannot set properties of null''"

definition getElementById :: "string \<Rightarrow> nat option io" where
  "getElementById i = (\<lambda>w. (Inr (w_getElementById w i), w))"

definition querySelector :: "template \<Rightarrow> nat option io" where
  "querySelector sel = (\<lambda>w. (Inr (w_querySelector w sel), w))"

definition querySelectorIn :: "nat option \<Rightarrow> string \<Rightarrow> nat option io" where
  "querySelectorIn el sel =
     (case el of
        None \<Rightarrow> throw null_read
      | Some a \<Rightarrow> (\<lambda>w. (Inr (w_querySelectorIn w a sel), w)))"

definition get_value :: "nat option \<Rightarrow> string io" where
  "get_value el =
     (case el of
        None \<Rightarrow> throw null_read
      | Some a \<Rightarrow> (\<lambda>w. (Inr (el_value (w_heap w a)), w)))"

definition modify :: "nat option \<Rightarrow> (world \<Rightarrow> element \<Rightarrow> element) \<Rightarrow> unit io" where
  "modify el f =
     (case el of
        None \<Rightarrow> throw null_write
      | Some a \<Rightarrow> (\<lambda>w. (Inr (), w\<lparr>w_heap := (w_heap w)(a := f w (w_heap w a))\<rparr>)))"

definition set_value :: "nat option \<Rightarrow> string \<Rightarrow> unit io" where
  "set_value el v = modify el (\<lambda>w e. e\<lparr>el_value := v\<rparr>)"

definition set_className :: "nat option \<Rightarrow> string \<Rightarrow> unit io" where
  "set_className el c = modify el (\<lambda>w e. e\<lparr>el_className := c\<rparr>)"

text \<open>Assigning \<open>innerHTML\<close> replaces what the element contained.\<close>

definition set_innerHTML :: "nat option \<Rightarrow> template \<Rightarrow> unit io" where
  "set_innerHTML el t = modify el (\<lambda>w e. e\<lparr>el_innerHTML := t, el_children := []\<rparr>)"

definition appendChild :: "nat option \<Rightarrow> child \<Rightarrow> unit io" where
  "appendChild el c =
     (case el of
        None \<Rightarrow> throw null_read
      | Some a \<Rightarrow> modify el (\<lambda>w e. e\<lparr>el_children := el_children e @ [c]\<rparr>))"

text \<open>\<open>el.scrollTop = el.scrollHeight\<close>\<close>

definition scrollToBottom :: "nat option \<Rightarrow> unit io" where
  "scrollToBottom el =
     (case el of
        None \<Rightarrow> throw null_read
      | Some a \<Rightarrow> modify el (\<lambda>w e. e\<lparr>el_scrollTop := w_scrollHeight w e\<rparr>))"

definition addEventListener :: "nat option \<Rightarrow> string \<Rightarrow> unit io" where
  "addEventListener el ty =
     (case el of
        None \<Rightarrow> throw null_read
      | Some a \<Rightarrow> emit (Listen a ty))"

definition console_log :: "jsval list \<Rightarrow> unit io" where
  "console_log args = emit (ConsoleLog args)"

definition console_error :: "string \<Rightarrow> js_error \<Rightarrow> unit io" where
  "console_error label e = emit (ConsoleError label e)"

text \<open>
  \<open>fetch\<close> sends the request and resolves or rejects as the network decides. A rejected fetch
  throws a TypeError.
\<close>

definition fetch :: "request \<Rightarrow> (bool \<times> (string + jsval)) io" where
  "fetch req =
     (\<lambda>w. let k = length (requests_of (w_trace w));
              w' = w\<lparr>w_trace := w_trace w @ [Fetch req]\<rparr>
          in case w_net w k of
               NetFail m \<Rightarrow> (Inl (TypeError m), w')
             | Response okay b \<Rightarrow> (Inr (okay, b), w'))"

definition response_json :: "bool \<times> (string + jsval) \<Rightarrow> jsval io" where
  "response_json response =
     (case snd response of
        Inl m \<Rightarrow> throw (SyntaxError m)
      | Inr v \<Rightarrow> ret v)"

text \<open>
  \<open>data.key\<close> on a parsed response. Reading a property of \<open>undefined\<close> or \<open>null\<close> throws;
  every other value answers from its own properties and then from \<open>Object.prototype\<close>. The
  members that arrays, strings, numbers and booleans get from their own prototypes are left out:
  no key read through this function names one.
\<close>

fun read_field :: "jsval \<Rightarrow> string \<Rightarrow> jsval io" where
  "read_field JUndefined key = throw null_read"
| "read_field JNull key = throw null_read"
| "read_field (JObj kvs) key = ret (get_property kvs key)"
| "read_field v key = ret (get_property [] key)"

fun show_nat :: "nat \<Rightarrow> string" where
  "show_nat n =
     (if n < 10 then [char_of (48 + n)]
      else show_nat (n div 10) @ [char_of (48 + n mod 10)])"

text \<open>
  \<open>Object.entries(v)\<close>: the own enumerable properties. It throws on \<open>undefined\<close> and
  \<open>null\<close>; an array and a string answer with their indices; a number or a boolean has none.
  An object answers in the order of its list, which is taken to be the engine's order of keys.
\<close>

fun Object_entries :: "jsval \<Rightarrow> (string \<times> jsval) list io" where
  "Object_entries JUndefined = throw (TypeError ''Cannot convert undefined or null to object'')"
| "Object_entries JNull = throw (TypeError ''Cannot convert undefined or null to object'')"
| "Object_entries (JObj kvs) = ret kvs"
| "Object_entries (JArr xs) = ret (zip (map show_nat [0..<length xs]) xs)"
| "Object_entries (JStr s) = ret (zip (map show_nat [0..<length s]) (map (\<lambda>c. JStr [c]) s))"
| "Object_entries v = ret []"

fun for_each :: "'a list \<Rightarrow> ('a \<Rightarrow> unit io) \<Rightarrow> unit io" where
  "for_each [] f = ret ()"
| "for_each (x # xs) f = bind (f x) (\<lambda>_. for_each xs f)"

text \<open>
  \<open>String.prototype.trim\<close>: white space and line terminators go from both ends. Of the code
  units a \<open>char\<close> can hold these are tab, line feed, vertical tab, form feed, carriage return,
  space and no-break space.
\<close>

definition js_whitespace :: "char \<Rightarrow> bool" where
  "js_whitespace c = (of_char c \<in> {9, 10, 11, 12, 13, 32, 160 :: nat})"

definition trim :: "string \<Rightarrow> string" where
  "trim s = rev (dropWhile js_whitespace (rev (dropWhile js_whitespace s)))"

section \<open>The dashboard (main.js)\<close>

definition API_BASE_URL :: string where
  "API_BASE_URL = ''/api/v1''"

definition agentMapping :: "(string \<times> jsval) list" where
  "agentMapping =
    [(''api'', JStr ''social-graph''),
     (''neptune'', JStr ''chemistry''),
     (''sagemaker'', JStr ''adaptation''),
     (''bedrock'', JStr ''storyteller'')]"

definition updateAgentStatus :: "jsval \<Rightarrow> unit io" where
  \<open>updateAgentStatus services =
     bind (Object_entries services) (\<lambda>entries.
       for_each entries (\<lambda>(service, status).
         bind (querySelector [Lit ''[data-agent="'', Val (get_property agentMapping service), Lit ''"]'']) (\<lambda>agentCard.
           case agentCard of
             None \<Rightarrow> ret ()
           | Some cardEl \<Rightarrow>
               bind (querySelectorIn (Some cardEl) ''.status-dot'') (\<lambda>indicator.
                 case indicator of
                   None \<Rightarrow> ret ()
                 | Some i \<Rightarrow>
                     set_className (Some i)
                       (if status = JStr ''operational'' then ''status-dot status-active''
                        else ''status-dot status-inactive'')))))\<close>

text \<open>\<open>fetch(url)\<close> with no options is a GET with no body.\<close>

definition health_request :: request where
  "health_request = \<lparr>url = API_BASE_URL @ ''/health'', http_method = ''GET'', headers = [], body = None\<rparr>"

definition checkSystemHealth :: "unit io" where
  "checkSystemHealth =
     try_catch
       (bind (fetch health_request) (\<lambda>response.
        bind (response_json response) (\<lambda>data.
        bind (console_log [JStr ''System Health:'', data]) (\<lambda>_.
        bind (read_field data ''services'') (\<lambda>services.
        updateAgentStatus services)))))
       (\<lambda>error. console_error ''Health check failed:'' error)"

definition pollAnalysisStatus :: "jsval \<Rightarrow> unit io" where
  "pollAnalysisStatus analysisId = console_log [JStr ''Polling analysis status:'', analysisId]"

definition analysis_started :: "jsval \<Rightarrow> jsval \<Rightarrow> template" where
  \<open>analysis_started analysis_id estimated_time =
     [Lit ([CHR 0x0A] @ replicate 16 CHR '' '' @ ''<p style="color: var(--success);">Analysis Started!</p>''
           @ [CHR 0x0A] @ replicate 16 CHR '' '' @ ''<p>Analysis ID: ''),
      Val analysis_id,
      Lit (''</p>'' @ [CHR 0x0A] @ replicate 16 CHR '' '' @ ''<p>Estimated time: ''),
      Val estimated_time,
      Lit (''</p>'' @ [CHR 0x0A] @ replicate 12 CHR '' '')]\<close>

definition analyze_request :: "string \<Rightarrow> string \<Rightarrow> request" where
  "analyze_request summonerName region =
     \<lparr>url = API_BASE_URL @ ''/summoner/analyze'', http_method = ''POST'',
      headers = [(''Content-Type'', ''application/json'')],
      body = Some (JObj [(''summoner_name'', JStr summonerName),
                         (''region'', JStr region),
                         (''match_count'', JNum 100),
                         (''include_ranked_only'', JBool True)])\<rparr>"

definition analyzeSummoner :: "unit io" where
  \<open>analyzeSummoner =
     bind (getElementById ''summonerName'') (\<lambda>nameInput.
     bind (get_value nameInput) (\<lambda>summonerName.
     bind (getElementById ''region'') (\<lambda>regionInput.
     bind (get_value regionInput) (\<lambda>region.
     bind (getElementById ''analysisStatus'') (\<lambda>statusDiv.
       if summonerName = [] then
         set_innerHTML statusDiv [Lit ''<p style="color: var(--error);">Please enter a summoner name</p>'']
       else
         bind (set_innerHTML statusDiv
                 [Lit ''<p style="color: var(--warning);">Analyzing... This may take 2-5 minutes</p>'']) (\<lambda>_.
         try_catch
           (bind (fetch (analyze_request summonerName region)) (\<lambda>response.
            bind (response_json response) (\<lambda>data.
              if fst response then
                bind (read_field data ''analysis_id'') (\<lambda>analysis_id.
                bind (read_field data ''estimated_time'') (\<lambda>estimated_time.
                bind (set_innerHTML statusDiv (analysis_started analysis_id estimated_time)) (\<lambda>_.
                pollAnalysisStatus analysis_id)))
              else
                bind (read_field data ''detail'') (\<lambda>detail.
                set_innerHTML statusDiv
                  [Lit ''<p style="color: var(--error);">Analysis failed: '', Val detail, Lit ''</p>'']))))
           (\<lambda>error.
              set_innerHTML statusDiv
                [Lit ''<p style="color: var(--error);">Error: '', Val (JStr (message error)), Lit ''</p>''])))))))\<close>

text \<open>The request both chat functions send, to the URL each of them names.\<close>

definition chat_request :: "string \<Rightarrow> string \<Rightarrow> request" where
  "chat_request u question =
     \<lparr>url = u, http_method = ''POST'', headers = [(''Content-Type'', ''application/json'')],
      body = Some (JObj [(''summoner_id'', JStr ''current_user''), (''question'', JStr question)])\<rparr>"

definition sendChatMessage :: "unit io" where
  "sendChatMessage =
     bind (getElementById ''chatInput'') (\<lambda>input.
     bind (getElementById ''chatMessages'') (\<lambda>messagesDiv.
     bind (get_value input) (\<lambda>v.
       let message = trim v in
       if message = [] then ret ()
       else
         bind (appendChild messagesDiv
                 (Child ''div'' ''chat-message user'' [Lit ''<p>'', Val (JStr message), Lit ''</p>''])) (\<lambda>_.
         bind (set_value input []) (\<lambda>_.
         bind (scrollToBottom messagesDiv) (\<lambda>_.
         try_catch
           (bind (fetch (chat_request (API_BASE_URL @ ''/meta/chat'') message)) (\<lambda>response.
            bind (response_json response) (\<lambda>data.
            bind (read_field data ''response'') (\<lambda>r.
            bind (appendChild messagesDiv
                    (Child ''div'' ''chat-message bot'' [Lit ''<p>'', Val r, Lit ''</p>''])) (\<lambda>_.
            scrollToBottom messagesDiv)))))
           (\<lambda>error.
              bind (console_error ''Chat error:'' error) (\<lambda>_.
              appendChild messagesDiv
                (Child ''div'' ''chat-message bot''
                   [Lit ''<p>Sorry, I encountered an error. Please try again.</p>''])))))))))"

section \<open>The chat widget (meta\_chat.js)\<close>

record metachat =
  mc_container :: "nat option"
  mc_messagesDiv :: "nat option"
  mc_inputField :: "nat option"
  mc_sendButton :: "nat option"

definition setupEventListeners :: "metachat \<Rightarrow> unit io" where
  "setupEventListeners this =
     bind (addEventListener (mc_sendButton this) ''click'') (\<lambda>_.
     addEventListener (mc_inputField this) ''keypress'')"

definition MetaChat :: "string \<Rightarrow> metachat io" where
  "MetaChat containerId =
     bind (getElementById containerId) (\<lambda>container.
     bind (querySelectorIn container ''.chat-messages'') (\<lambda>messagesDiv.
     bind (querySelectorIn container ''.chat-input'') (\<lambda>inputField.
     bind (querySelectorIn container ''.send-button'') (\<lambda>sendButton.
       let this = \<lparr>mc_container = container, mc_messagesDiv = messagesDiv,
                   mc_inputField = inputField, mc_sendButton = sendButton\<rparr>
       in bind (setupEventListeners this) (\<lambda>_. ret this)))))"

definition addMessage :: "metachat \<Rightarrow> jsval \<Rightarrow> string \<Rightarrow> unit io" where
  "addMessage this text sender =
     bind (appendChild (mc_messagesDiv this)
             (Child ''div'' (''chat-message '' @ sender) [Lit ''<p>'', Val text, Lit ''</p>''])) (\<lambda>_.
     scrollToBottom (mc_messagesDiv this))"

definition sendMessage :: "metachat \<Rightarrow> unit io" where
  "sendMessage this =
     bind (get_value (mc_inputField this)) (\<lambda>v.
       let message = trim v in
       if message = [] then ret ()
       else
         bind (addMessage this (JStr message) ''user'') (\<lambda>_.
         bind (set_value (mc_inputField this) []) (\<lambda>_.
         try_catch
           (bind (fetch (chat_request ''/api/v1/meta/chat'' message)) (\<lambda>response.
            bind (response_json response) (\<lambda>data.
            bind (read_field data ''response'') (\<lambda>r.
            addMessage this r ''bot''))))
           (\<lambda>error. addMessage this (JStr ''Sorry, an error occurred.'') ''bot''))))"

section \<open>The synergy graph (synergy\_graph.js)\<close>

text \<open>
  A node datum, with the fields the graph code reads and the simulation maintains. Nodes are
  objects the code compares with \<open>===\<close> and mutates in place, so they live in a heap, by
  address. A fixed position is \<open>undefined\<close> until set, a number while the node is held, and
  \<open>null\<close> once released.
\<close>

datatype coord = Undefined | Null | At real

record gnode =
  n_id :: string
  n_name :: string
  n_radius :: "real option"
  n_color :: "string option"
  n_win_rate :: "real option"
  n_x :: real
  n_y :: real
  n_vx :: real
  n_vy :: real
  n_fx :: coord
  n_fy :: coord

text \<open>
  A link, with the addresses of its end nodes: the link force replaces the ids the data came with
  by the node objects as soon as it receives nodes and links, which \<open>render\<close> makes it do.
\<close>

record link =
  l_source :: nat
  l_target :: nat
  l_value :: real

record graph_data =
  gd_nodes :: "nat list"
  gd_links :: "link list"

datatype attr = ANum real | AStr string

type_synonym attrs = "string \<rightharpoonup> attr"

text \<open>
  The force simulation of the library, as far as the code configures it: the parameters of its
  forces, its alpha values, its nodes and links, and whether its timer runs.
\<close>

record simulation =
  sim_linkDistance :: "real option"
  sim_chargeStrength :: "real option"
  sim_center :: "real \<times> real"
  sim_collisionRadius :: "real option"
  sim_alpha :: real
  sim_alphaTarget :: real
  sim_running :: bool
  sim_nodes :: "nat list"
  sim_links :: "link list"

text \<open>
  The graph object. The line and circle elements carry the datum the data join bound to them and
  their attributes; \<open>linkElements\<close> and \<open>nodeElements\<close> are \<open>undefined\<close> until the first
  render and from then on hold every line and circle of their group. Labels and tooltips are left
  out: no claim concerns them and neither hover handler touches them.
\<close>

record synergy_graph =
  sg_width :: real
  sg_height :: real
  sg_options :: "string \<rightharpoonup> real"
  sg_simulation :: simulation
  sg_graphData :: "graph_data option"
  sg_linkElements :: "(link \<times> attrs) list option"
  sg_nodeElements :: "(nat \<times> attrs) list option"

text \<open>\<open>v || d\<close> for an option that is a number when present: \<open>undefined\<close> and \<open>0\<close> are falsy.\<close>

definition or_num :: "real option \<Rightarrow> real \<Rightarrow> real" where
  "or_num v d = (case v of None \<Rightarrow> d | Some r \<Rightarrow> if r \<noteq> 0 then r else d)"

text \<open>
  \<open>d3.forceSimulation()\<close> with the four forces of \<open>initialize\<close>. A new simulation has alpha 1,
  alpha target 0 and a running timer. Reading an option that is not there gives \<open>undefined\<close>,
  here \<open>None\<close>.
\<close>

definition initialize :: "synergy_graph \<Rightarrow> synergy_graph" where
  "initialize this =
     this\<lparr>sg_simulation :=
       \<lparr>sim_linkDistance = sg_options this ''linkDistance'',
        sim_chargeStrength = sg_options this ''chargeStrength'',
        sim_center = (sg_width this / 2, sg_height this / 2),
        sim_collisionRadius = map_option (\<lambda>r. r * 2) (sg_options this ''nodeRadius''),
        sim_alpha = 1, sim_alphaTarget = 0, sim_running = True,
        sim_nodes = [], sim_links = []\<rparr>\<rparr>"

text \<open>
  The constructor. \<open>container\<close> is the \<open>clientWidth\<close> of the element with the given id,
  \<open>None\<close> when there is no such element; it is read only when no truthy width is given. The
  options are numbers. The object spread \<open>...options\<close> comes last in the literal, so an option
  that is present overrides the entry written before it. The simulation the record starts with
  stands for the \<open>null\<close> that \<open>initialize\<close> replaces before the constructor returns.
\<close>

definition SynergyGraph :: "real option \<Rightarrow> (string \<rightharpoonup> real) \<Rightarrow> js_error + synergy_graph" where
  "SynergyGraph container options =
     (case (case options ''width'' of
              Some v \<Rightarrow> if v \<noteq> 0 then Inr v
                        else (case container of None \<Rightarrow> Inl null_read | Some cw \<Rightarrow> Inr cw)
            | None \<Rightarrow> (case container of None \<Rightarrow> Inl null_read | Some cw \<Rightarrow> Inr cw)) of
        Inl e \<Rightarrow> Inl e
      | Inr width \<Rightarrow>
          Inr (initialize
            \<lparr>sg_width = width,
             sg_height = or_num (options ''height'') 600,
             sg_options =
               [''nodeRadius'' \<mapsto> or_num (options ''nodeRadius'') 10,
                ''linkDistance'' \<mapsto> or_num (options ''linkDistance'') 100,
                ''chargeStrength'' \<mapsto> or_num (options ''chargeStrength'') (- 400)] ++ options,
             sg_simulation =
               \<lparr>sim_linkDistance = None, sim_chargeStrength = None, sim_center = (0, 0),
                sim_collisionRadius = None, sim_alpha = 1, sim_alphaTarget = 0,
                sim_running = False, sim_nodes = [], sim_links = []\<rparr>,
             sg_graphData = None, sg_linkElements = None, sg_nodeElements = None\<rparr>))"

definition getNodeColor :: "gnode \<Rightarrow> string" where
  "getNodeColor node =
     (case n_win_rate node of
        None \<Rightarrow> ''#ffaa00''
      | Some wr \<Rightarrow>
          if wr > lit 0.6 then ''#00c896''
          else if wr > lit 0.5 then ''#0066cc''
          else ''#ffaa00'')"

text \<open>
  \<open>selection.data(ds).join(tag)\<close> with no key: data are bound by index. An element that
  is already there is kept with its attributes and gets the new datum, an element is added for
  each datum beyond, and the elements beyond the data are removed.
\<close>

fun join :: "('d \<times> attrs) list \<Rightarrow> 'e list \<Rightarrow> ('e \<times> attrs) list" where
  "join old [] = []"
| "join [] (d # ds) = (d, Map.empty) # join [] ds"
| "join ((d0, a) # old) (d # ds) = (d, a) # join old ds"

text \<open>\<open>.attr(name, v)\<close> on one element: a value of \<open>undefined\<close> removes the attribute.\<close>

definition set_attr :: "string \<Rightarrow> attr option \<Rightarrow> attrs \<Rightarrow> attrs" where
  "set_attr name v a = a(name := v)"

definition drawn :: "('d \<times> attrs) list option \<Rightarrow> ('d \<times> attrs) list" where
  "drawn sel = (case sel of None \<Rightarrow> [] | Some els \<Rightarrow> els)"

definition renderLinks :: "link list \<Rightarrow> synergy_graph \<Rightarrow> synergy_graph" where
  "renderLinks links this =
     this\<lparr>sg_linkElements := Some (map (\<lambda>(d, a). (d,
       (set_attr ''stroke-opacity'' (Some (ANum 0.6))
       (set_attr ''stroke-width'' (Some (ANum (getLinkWidth (l_value d))))
       (set_attr ''stroke'' (Some (AStr (getLinkColor (l_value d))))
       (set_attr ''class'' (Some (AStr ''synergy-link'')) a))))))
       (join (drawn (sg_linkElements this)) links))\<rparr>"

definition renderNodes :: "(nat \<Rightarrow> gnode) \<Rightarrow> nat list \<Rightarrow> synergy_graph \<Rightarrow> synergy_graph" where
  "renderNodes heap nodes this =
     this\<lparr>sg_nodeElements := Some (map (\<lambda>(d, a). (d,
       (set_attr ''stroke-width'' (Some (ANum 2))
       (set_attr ''stroke'' (Some (AStr ''#ffffff''))
       (set_attr ''fill'' (Some (AStr (case n_color (heap d) of
                                         None \<Rightarrow> getNodeColor (heap d)
                                       | Some c \<Rightarrow> if c \<noteq> [] then c else getNodeColor (heap d))))
       (set_attr ''r'' (case n_radius (heap d) of
                          None \<Rightarrow> map_option ANum (sg_options this ''nodeRadius'')
                        | Some r \<Rightarrow> if r \<noteq> 0 then Some (ANum r)
                                    else map_option ANum (sg_options this ''nodeRadius''))
       (set_attr ''class'' (Some (AStr ''synergy-node'')) a)))))))
       (join (drawn (sg_nodeElements this)) nodes))\<rparr>"

text \<open>
  \<open>render\<close>: the data are stored, lines and circles are drawn, and the simulation gets the nodes
  and the links and is restarted with alpha 1. The positions the simulation gives the nodes are
  the library's work and stay in the heap as they are.
\<close>

definition render :: "(nat \<Rightarrow> gnode) \<Rightarrow> graph_data \<Rightarrow> synergy_graph \<Rightarrow> synergy_graph" where
  "render heap graphData this =
     (let this1 = this\<lparr>sg_graphData := Some graphData\<rparr>;
          this2 = renderLinks (gd_links graphData) this1;
          this3 = renderNodes heap (gd_nodes graphData) this2
      in this3\<lparr>sg_simulation := (sg_simulation this3)
           \<lparr>sim_nodes := gd_nodes graphData, sim_links := gd_links graphData,
            sim_alpha := 1, sim_running := True\<rparr>\<rparr>)"

text \<open>
  The hover handlers. Each attribute is set through a transition of 200 ms; the model gives the
  attributes the transition ends with. Before the first render there is no selection to call
  \<open>transition\<close> on, and the call throws.
\<close>

definition highlightNode :: "nat \<Rightarrow> synergy_graph \<Rightarrow> js_error + synergy_graph" where
  "highlightNode node this =
     (case (sg_nodeElements this, sg_graphData this, sg_linkElements this) of
        (Some nodeElements, Some graphData, Some linkElements) \<Rightarrow>
          Inr (this\<lparr>
            sg_nodeElements := Some (map (\<lambda>(d, a). (d,
              set_attr ''opacity''
                (Some (ANum (if d = node then 1
                   else if list_ex (\<lambda>l. (l_source l = node \<and> l_target l = d)
                                         \<or> (l_target l = node \<and> l_source l = d)) (gd_links graphData)
                        then 1 else 0.2))) a)) nodeElements),
            sg_linkElements := Some (map (\<lambda>(l, a). (l,
              (set_attr ''stroke-width''
                (Some (ANum (if l_source l = node \<or> l_target l = node
                             then js_mul (getLinkWidth (l_value l)) 1.5 else getLinkWidth (l_value l))))
              (set_attr ''stroke-opacity''
                (Some (ANum (if l_source l = node \<or> l_target l = node then 1 else 0.1))) a))))
              linkElements)\<rparr>)
      | _ \<Rightarrow> Inl (TypeError ''Cannot read properties of undefined''))"

definition resetHighlight :: "synergy_graph \<Rightarrow> js_error + synergy_graph" where
  "resetHighlight this =
     (case (sg_nodeElements this, sg_linkElements this) of
        (Some nodeElements, Some linkElements) \<Rightarrow>
          Inr (this\<lparr>
            sg_nodeElements := Some (map (\<lambda>(d, a). (d, set_attr ''opacity'' (Some (ANum 1)) a))
              nodeElements),
            sg_linkElements := Some (map (\<lambda>(d, a). (d,
              (set_attr ''stroke-width'' (Some (ANum (getLinkWidth (l_value d))))
              (set_attr ''stroke-opacity'' (Some (ANum 0.6)) a)))) linkElements)\<rparr>)
      | _ \<Rightarrow> Inl (TypeError ''Cannot read properties of undefined''))"

subsection \<open>Drag handlers\<close>

text \<open>
  A drag event: the number of other drag gestures active, and the pointer's position. The
  handlers get the datum of the dragged circle, a node object, here its address.
  \<open>simulation.restart()\<close> starts the timer again and returns; it moves no node itself.
\<close>

record drag_event =
  ev_active :: nat
  ev_x :: real
  ev_y :: real

definition restart :: "simulation \<Rightarrow> simulation" where
  "restart sim = sim\<lparr>sim_running := True\<rparr>"

definition alphaTarget :: "real \<Rightarrow> simulation \<Rightarrow> simulation" where
  "alphaTarget t sim = sim\<lparr>sim_alphaTarget := t\<rparr>"

definition dragstarted ::
  "drag_event \<Rightarrow> nat \<Rightarrow> synergy_graph \<times> (nat \<Rightarrow> gnode) \<Rightarrow> synergy_graph \<times> (nat \<Rightarrow> gnode)" where
  "dragstarted event d st =
     (let (this, heap) = st;
          this' = (if ev_active event = 0
                   then this\<lparr>sg_simulation := restart (alphaTarget 0.3 (sg_simulation this))\<rparr>
                   else this);
          heap1 = heap(d := (heap d)\<lparr>n_fx := At (n_x (heap d))\<rparr>);
          heap2 = heap1(d := (heap1 d)\<lparr>n_fy := At (n_y (heap1 d))\<rparr>)
      in (this', heap2))"

definition dragged ::
  "drag_event \<Rightarrow> nat \<Rightarrow> synergy_graph \<times> (nat \<Rightarrow> gnode) \<Rightarrow> synergy_graph \<times> (nat \<Rightarrow> gnode)" where
  "dragged event d st =
     (let (this, heap) = st;
          heap1 = heap(d := (heap d)\<lparr>n_fx := At (ev_x event)\<rparr>);
          heap2 = heap1(d := (heap1 d)\<lparr>n_fy := At (ev_y event)\<rparr>)
      in (this, heap2))"

definition dragended ::
  "drag_event \<Rightarrow> nat \<Rightarrow> synergy_graph \<times> (nat \<Rightarrow> gnode) \<Rightarrow> synergy_graph \<times> (nat \<Rightarrow> gnode)" where
  "dragended event d st =
     (let (this, heap) = st;
          this' = (if ev_active event = 0
                   then this\<lparr>sg_simulation := alphaTarget 0 (sg_simulation this)\<rparr>
                   else this);
          heap1 = heap(d := (heap d)\<lparr>n_fx := Null\<rparr>);
          heap2 = heap1(d := (heap1 d)\<lparr>n_fy := Null\<rparr>)
      in (this', heap2))"

text \<open>
  The handlers of \<open>createForceDirectedGraph\<close> in visualizations.js, which close over the
  simulation of that function.
\<close>

definition viz_dragstarted ::
  "drag_event \<Rightarrow> nat \<Rightarrow> simulation \<times> (nat \<Rightarrow> gnode) \<Rightarrow> simulation \<times> (nat \<Rightarrow> gnode)" where
  "viz_dragstarted event d st =
     (let (simulation, heap) = st;
          simulation' = (if ev_active event = 0 then restart (alphaTarget 0.3 simulation)
                         else simulation);
          heap1 = heap(d := (heap d)\<lparr>n_fx := At (n_x (heap d))\<rparr>);
          heap2 = heap1(d := (heap1 d)\<lparr>n_fy := At (n_y (heap1 d))\<rparr>)
      in (simulation', heap2))"

definition viz_dragged ::
  "drag_event \<Rightarrow> nat \<Rightarrow> simulation \<times> (nat \<Rightarrow> gnode) \<Rightarrow> simulation \<times> (nat \<Rightarrow> gnode)" where
  "viz_dragged event d st =
     (let (simulation, heap) = st;
          heap1 = heap(d := (heap d)\<lparr>n_fx := At (ev_x event)\<rparr>);
          heap2 = heap1(d := (heap1 d)\<lparr>n_fy := At (ev_y event)\<rparr>)
      in (simulation, heap2))"

definition viz_dragended ::
  "drag_event \<Rightarrow> nat \<Rightarrow> simulation \<times> (nat \<Rightarrow> gnode) \<Rightarrow> simulation \<times> (nat \<Rightarrow> gnode)" where
  "viz_dragended event d st =
     (let (simulation, heap) = st;
          simulation' = (if ev_active event = 0 then alphaTarget 0 simulation else simulation);
          heap1 = heap(d := (heap d)\<lparr>n_fx := Null\<rparr>);
          heap2 = heap1(d := (heap1 d)\<lparr>n_fy := Null\<rparr>)
      in (simulation', heap2))"

section \<open>Observations on a run\<close>

text \<open>The effects a run added to the trace.\<close>

definition new_events :: "world \<Rightarrow> world \<Rightarrow> event list" where
  "new_events w w' = drop (length (w_trace w)) (w_trace w')"


fun is_console_error :: "event \<Rightarrow> bool" where
  "is_console_error (ConsoleError label e) = True"
| "is_console_error _ = False"



text \<open>
  The error a failed fetch throws into the surrounding \<open>try\<close>: the rejection of the request,
  or the rejection of \<open>response.json()\<close> on a body that is not JSON.
\<close>

fun fetch_failure :: "fetch_outcome \<Rightarrow> js_error option" where
  "fetch_failure (NetFail m) = Some (TypeError m)"
| "fetch_failure (Response okay (Inl m)) = Some (SyntaxError m)"
| "fetch_failure (Response okay (Inr v)) = None"

text \<open>The outcome of the next fetch a run from \<open>w\<close> issues.\<close>

definition next_outcome :: "world \<Rightarrow> fetch_outcome" where
  "next_outcome w = w_net w (length (requests_of (w_trace w)))"

text \<open>
  Modelled from the spec: the table of the seven REST endpoints the front end expects (section 6
  of the spec); the sources hold no such table. A path in braces stands for any text.
\<close>

definition documented_endpoint :: "string \<Rightarrow> bool" where
  "documented_endpoint u =
     (u = ''/api/v1/health''
      \<or> u = ''/api/v1/summoner/analyze''
      \<or> prefix ''/api/v1/synergy/graph/'' u
      \<or> prefix ''/api/v1/meta/evolution/'' u
      \<or> u = ''/api/v1/predictions/compositions''
      \<or> prefix ''/api/v1/insights/narrative/'' u
      \<or> u = ''/api/v1/meta/chat'')"

text \<open>A run all of whose new trace entries satisfy \<open>P\<close>, from every world.\<close>

definition emits :: "(event \<Rightarrow> bool) \<Rightarrow> 'a io \<Rightarrow> bool" where
  "emits P m = (\<forall>w. \<exists>evs. w_trace (snd (m w)) = w_trace w @ evs \<and> list_all P evs)"

fun documented_event :: "event \<Rightarrow> bool" where
  "documented_event (Fetch r) = (prefix API_BASE_URL (url r) \<and> documented_endpoint (url r))"
| "documented_event _ = True"

text \<open>
  What the spec says of every catch branch, as a property of one run of \<open>f\<close> from \<open>w\<close>:
  the page was changed and an error went to the console.
\<close>

definition displays_and_logs :: "unit io \<Rightarrow> world \<Rightarrow> bool" where
  "displays_and_logs f w =
     (w_heap (snd (f w)) \<noteq> w_heap w \<and> list_ex is_console_error (new_events w (snd (f w))))"

text \<open>
  Two nodes share a link when some link joins them, in either direction; a link is incident to a
  node when the node is one of its ends.
\<close>

definition shares_link :: "link list \<Rightarrow> nat \<Rightarrow> nat \<Rightarrow> bool" where
  "shares_link links n d =
     (\<exists>l \<in> set links. (l_source l = n \<and> l_target l = d) \<or> (l_target l = n \<and> l_source l = d))"

definition incident :: "link \<Rightarrow> nat \<Rightarrow> bool" where
  "incident l n = (l_source l = n \<or> l_target l = n)"

text \<open>
  What a handler may do to the node heap: at address \<open>d\<close> the fixed position becomes
  \<open>(fx, fy)\<close> and every other field stays; at every other address the node stays.
\<close>

definition only_fixed_position :: "nat \<Rightarrow> coord \<Rightarrow> coord \<Rightarrow> (nat \<Rightarrow> gnode) \<Rightarrow> (nat \<Rightarrow> gnode) \<Rightarrow> bool" where
  "only_fixed_position d fx fy heap heap' =
     (heap' d = (heap d)\<lparr>n_fx := fx, n_fy := fy\<rparr> \<and> (\<forall>a. a \<noteq> d \<longrightarrow> heap' a = heap a))"

text \<open>The attributes \<open>renderLinks\<close> gives a line, as one function.\<close>

definition link_base :: "link \<times> attrs \<Rightarrow> link \<times> attrs" where
  "link_base = (\<lambda>(d, a). (d,
       (set_attr ''stroke-opacity'' (Some (ANum 0.6))
       (set_attr ''stroke-width'' (Some (ANum (getLinkWidth (l_value d))))
       (set_attr ''stroke'' (Some (AStr (getLinkColor (l_value d))))
       (set_attr ''class'' (Some (AStr ''synergy-link'')) a))))))"

section \<open>Example pages\<close>

definition blank :: element where
  "blank = \<lparr>el_value = [], el_className = [], el_innerHTML = [], el_children = [], el_scrollTop = 0\<rparr>"

text \<open>
  A dashboard with the analyze form (elements 0, 1, 2), the chat box (3, 4), a chat widget (5 with
  6, 7, 8 inside) and one agent card (9) with its status dot (10). The name field is empty, both
  chat inputs hold white space only, and the network is down.
\<close>

definition idle_page :: world where
  \<open>idle_page =
     \<lparr>w_getElementById = map_of [(''summonerName'', 0), (''region'', 1), (''analysisStatus'', 2),
                                   (''chatInput'', 3), (''chatMessages'', 4), (''metaChat'', 5)],
      w_querySelector = (\<lambda>sel. if sel = [Lit ''[data-agent="'', Val (JStr ''social-graph''), Lit ''"]'']
                                 then Some 9 else None),
      w_querySelectorIn = (\<lambda>a sel. if a = 5 \<and> sel = ''.chat-messages'' then Some 6
                                     else if a = 5 \<and> sel = ''.chat-input'' then Some 7
                                     else if a = 5 \<and> sel = ''.send-button'' then Some 8
                                     else if a = 9 \<and> sel = ''.status-dot'' then Some 10
                                     else None),
      w_heap = (\<lambda>a. if a = 1 then blank\<lparr>el_value := ''na1''\<rparr>
                      else if a = 3 \<or> a = 7 then blank\<lparr>el_value := [CHR '' '', CHR 0x09]\<rparr>
                      else if a = 10 then blank\<lparr>el_className := ''status-dot''\<rparr>
                      else blank),
      w_scrollHeight = (\<lambda>e. 24 * int (length (el_children e))),
      w_net = (\<lambda>k. NetFail ''Failed to fetch''),
      w_trace = []\<rparr>\<close>

text \<open>The same page with a name and two chat messages typed in.\<close>

definition typed_page :: world where
  "typed_page =
     idle_page\<lparr>w_heap := (\<lambda>a. if a = 0 then blank\<lparr>el_value := ''Faker''\<rparr>
                                 else if a = 3 \<or> a = 7 then blank\<lparr>el_value := '' hi ''\<rparr>
                                 else w_heap idle_page a)\<rparr>"

text \<open>The typed page with a server that answers every request.\<close>

definition served_page :: world where
  "served_page =
     typed_page\<lparr>w_net := (\<lambda>k. Response True (Inr (JObj
        [(''services'', JObj [(''api'', JStr ''operational'')]),
         (''analysis_id'', JStr ''a-17''),
         (''estimated_time'', JStr ''3 minutes''),
         (''response'', JStr ''Scaling compositions suit you.'')])))\<rparr>"

definition widget :: metachat where
  "widget = \<lparr>mc_container = Some 5, mc_messagesDiv = Some 6, mc_inputField = Some 7,
             mc_sendButton = Some 8\<rparr>"

section \<open>Example graph\<close>

text \<open>
  The graph of \<open>mockGraphData\<close>, its five players at the addresses 0 to 4, laid out on a row,
  drawn by a graph object made with two options.
\<close>

definition demo_heap :: "nat \<Rightarrow> gnode" where
  "demo_heap a =
     \<lparr>n_id = ''player'' @ show_nat (a + 1),
      n_name = (if a = 0 then ''You'' else ''Player '' @ [char_of (64 + a)]),
      n_radius = Some (if a = 0 then 12 else if a = 4 then 8 else 10),
      n_color = Some (if a = 0 then ''#0066cc'' else if a = 4 then ''#ffaa00'' else ''#00c896''),
      n_win_rate = None,
      n_x = 100 * real a, n_y = 50, n_vx = 0, n_vy = 0, n_fx = Undefined, n_fy = Undefined\<rparr>"

definition demo_data :: graph_data where
  "demo_data =
     \<lparr>gd_nodes = [0, 1, 2, 3, 4],
      gd_links = [\<lparr>l_source = 0, l_target = 1, l_value = lit 0.87\<rparr>,
                  \<lparr>l_source = 0, l_target = 2, l_value = lit 0.72\<rparr>,
                  \<lparr>l_source = 0, l_target = 3, l_value = lit 0.91\<rparr>,
                  \<lparr>l_source = 1, l_target = 2, l_value = lit 0.68\<rparr>,
                  \<lparr>l_source = 2, l_target = 3, l_value = lit 0.75\<rparr>]\<rparr>"

definition demo_graph :: synergy_graph where
  "demo_graph = projr (SynergyGraph (Some 800) [''linkDistance'' \<mapsto> 150, ''chargeStrength'' \<mapsto> 0])"

definition demo_view :: synergy_graph where
  "demo_view = render demo_heap demo_data demo_graph"

text \<open>A drag gesture with no other gesture active.\<close>

definition grab :: drag_event where
  "grab = \<lparr>ev_active = 0, ev_x = 240, ev_y = 80\<rparr>"

section \<open>Theorems\<close>

subsection \<open>Unfolding the primitives\<close>

lemmas io_defs = bind_def ret_def throw_def try_catch_def emit_def getElementById_def
  querySelector_def querySelectorIn_def get_value_def modify_def set_value_def set_className_def
  set_innerHTML_def appendChild_def scrollToBottom_def addEventListener_def console_log_def
  console_error_def fetch_def response_json_def sleep_def

lemmas page_defs = idle_page_def typed_page_def served_page_def widget_def blank_def

subsection \<open>Rules for the trace of a run\<close>

lemma emits_ret: "emits P (ret x)"
  by (simp add: emits_def ret_def)

lemma emits_throw: "emits P (throw e)"
  by (simp add: emits_def throw_def)

lemma emits_bind:
  assumes "emits P m" and "\<And>x. emits P (f x)"
  shows "emits P (bind m f)"
  unfolding emits_def
proof
  fix w
  obtain r w' where mw: "m w = (r, w')" by (cases "m w")
  from assms(1) obtain evs where e1: "w_trace w' = w_trace w @ evs" "list_all P evs"
    unfolding emits_def using mw by (metis snd_conv)
  show "\<exists>evs. w_trace (snd (bind m f w)) = w_trace w @ evs \<and> list_all P evs"
  proof (cases r)
    case (Inl e)
    then show ?thesis using mw e1 by (auto simp: bind_def)
  next
    case (Inr x)
    from assms(2)[of x] obtain evs2 where "w_trace (snd (f x w')) = w_trace w' @ evs2" "list_all P evs2"
      unfolding emits_def by blast
    then show ?thesis using mw e1 Inr by (auto simp: bind_def)
  qed
qed

lemma emits_try_catch:
  assumes "emits P m" and "\<And>e. emits P (h e)"
  shows "emits P (try_catch m h)"
  unfolding emits_def
proof
  fix w
  obtain r w' where mw: "m w = (r, w')" by (cases "m w")
  from assms(1) obtain evs where e1: "w_trace w' = w_trace w @ evs" "list_all P evs"
    unfolding emits_def using mw by (metis snd_conv)
  show "\<exists>evs. w_trace (snd (try_catch m h w)) = w_trace w @ evs \<and> list_all P evs"
  proof (cases r)
    case (Inr x)
    then show ?thesis using mw e1 by (auto simp: try_catch_def)
  next
    case (Inl e)
    from assms(2)[of e] obtain evs2 where "w_trace (snd (h e w')) = w_trace w' @ evs2" "list_all P evs2"
      unfolding emits_def by blast
    then show ?thesis using mw e1 Inl by (auto simp: try_catch_def)
  qed
qed

lemma emits_emit: "P ev \<Longrightarrow> emits P (emit ev)"
  by (simp add: emits_def emit_def)

lemma emits_lookup:
  "emits P (getElementById i)" "emits P (querySelector sel)" "emits P (querySelectorIn el s)"
  "emits P (get_value el)"
  by (auto simp: emits_def io_defs split: option.splits)

lemma emits_modify: "emits P (modify el f)"
  by (auto simp: emits_def io_defs split: option.splits)

lemma emits_setters:
  "emits P (set_value el v)" "emits P (set_className el c)" "emits P (set_innerHTML el t)"
  "emits P (appendChild el ch)" "emits P (scrollToBottom el)"
  by (auto simp: set_value_def set_className_def set_innerHTML_def appendChild_def
      scrollToBottom_def emits_throw emits_modify split: option.splits)

lemma emits_fetch: "P (Fetch req) \<Longrightarrow> emits P (fetch req)"
  by (auto simp: emits_def fetch_def Let_def split: fetch_outcome.splits)

lemma emits_response_json: "emits P (response_json r)"
  by (auto simp: response_json_def emits_ret emits_throw split: sum.splits)

lemma emits_read_field: "emits P (read_field v k)"
  by (cases v) (simp_all add: emits_ret emits_throw)

lemma emits_Object_entries: "emits P (Object_entries v)"
  by (cases v) (simp_all add: emits_ret emits_throw)

lemma emits_for_each:
  assumes "\<And>x. emits P (f x)"
  shows "emits P (for_each xs f)"
  by (induction xs) (simp_all add: emits_ret emits_bind assms)

lemmas emits_basic = emits_ret emits_throw emits_lookup emits_modify emits_setters
  emits_response_json emits_read_field emits_Object_entries

lemma emits_updateAgentStatus: "emits P (updateAgentStatus services)"
  unfolding updateAgentStatus_def
  by (intro emits_bind emits_for_each)
     (auto intro!: emits_bind simp: emits_basic split: option.splits prod.splits)

lemma documented_health: "documented_event (Fetch health_request)"
  by (simp add: health_request_def API_BASE_URL_def documented_endpoint_def)

lemma documented_analyze: "documented_event (Fetch (analyze_request n r))"
  by (simp add: analyze_request_def API_BASE_URL_def documented_endpoint_def)

lemma documented_chat:
  "documented_event (Fetch (chat_request (API_BASE_URL @ ''/meta/chat'') q))"
  "documented_event (Fetch (chat_request ''/api/v1/meta/chat'' q))"
  by (simp_all add: chat_request_def API_BASE_URL_def documented_endpoint_def)

lemma emits_checkSystemHealth: "emits documented_event checkSystemHealth"
  unfolding checkSystemHealth_def console_log_def console_error_def
  by (intro emits_try_catch emits_bind emits_fetch emits_emit emits_updateAgentStatus
        documented_health)
     (simp_all add: emits_basic)

lemma emits_analyzeSummoner: "emits documented_event analyzeSummoner"
  unfolding analyzeSummoner_def pollAnalysisStatus_def console_log_def
  by (auto intro!: emits_bind emits_try_catch emits_fetch emits_emit documented_analyze
      simp: emits_basic)

lemma emits_sendChatMessage: "emits documented_event sendChatMessage"
  unfolding sendChatMessage_def console_error_def Let_def
  by (auto intro!: emits_bind emits_try_catch emits_fetch emits_emit documented_chat
      simp: emits_basic)

lemma emits_addMessage: "emits P (addMessage this t s)"
  unfolding addMessage_def by (auto intro!: emits_bind simp: emits_basic)

lemma emits_sendMessage: "emits documented_event (sendMessage this)"
  unfolding sendMessage_def Let_def
  by (auto intro!: emits_bind emits_try_catch emits_fetch emits_addMessage documented_chat
      simp: emits_basic)

lemma emits_pollAnalysisStatus: "emits (\<lambda>ev. \<not> is_fetch ev) (pollAnalysisStatus i)"
  unfolding pollAnalysisStatus_def console_log_def by (simp add: emits_emit)

lemma emits_MetaChat: "emits (\<lambda>ev. \<not> is_fetch ev) (MetaChat containerId)"
  unfolding MetaChat_def setupEventListeners_def addEventListener_def Let_def
  by (auto intro!: emits_bind emits_emit simp: emits_basic split: option.splits)

lemma no_fetch_no_requests:
  assumes "list_all (\<lambda>ev. \<not> is_fetch ev) evs"
  shows "requests_of evs = []"
  using assms by (induction evs rule: requests_of.induct) simp_all

lemma emits_new_events:
  assumes "emits P m"
  shows "list_all P (new_events w (snd (m w)))"
proof -
  from assms obtain evs where "w_trace (snd (m w)) = w_trace w @ evs" "list_all P evs"
    unfolding emits_def by blast
  then show ?thesis by (simp add: new_events_def)
qed

lemma requests_documented:
  assumes "list_all documented_event evs"
  shows "\<forall>r \<in> set (requests_of evs). prefix API_BASE_URL (url r) \<and> documented_endpoint (url r)"
  using assms by (induction evs rule: requests_of.induct) simp_all



lemma fetch_failure_cases:
  assumes "fetch_failure out = Some e"
  shows "(\<exists>m. out = NetFail m \<and> e = TypeError m) \<or> (\<exists>okay m. out = Response okay (Inl m) \<and> e = SyntaxError m)"
  using assms by (cases out rule: fetch_failure.cases) simp_all

lemma checkSystemHealth_failed:
  assumes "fetch_failure (next_outcome w) = Some e"
  shows "checkSystemHealth w =
    (Inr (), w\<lparr>w_trace := w_trace w @ [Fetch health_request, ConsoleError ''Health check failed:'' e]\<rparr>)"
  using fetch_failure_cases [OF assms]
  by (auto simp: checkSystemHealth_def next_outcome_def io_defs Let_def)

lemma analyzeSummoner_failed:
  assumes "fetch_failure (next_outcome w) = Some e"
    and "w_getElementById w ''summonerName'' = Some n" and "el_value (w_heap w n) \<noteq> []"
    and "w_getElementById w ''region'' = Some r" and "w_getElementById w ''analysisStatus'' = Some s"
  shows \<open>analyzeSummoner w =
    (Inr (), w\<lparr>w_heap := (w_heap w)(s := (w_heap w s)
               \<lparr>el_innerHTML := [Lit ''<p style="color: var(--error);">Error: '', Val (JStr (message e)), Lit ''</p>''],
                el_children := []\<rparr>),
              w_trace := w_trace w @ [Fetch (analyze_request (el_value (w_heap w n)) (el_value (w_heap w r)))]\<rparr>)\<close>
  using fetch_failure_cases [OF assms(1)] assms(2-5)
  by (auto simp: analyzeSummoner_def next_outcome_def io_defs Let_def)

lemma sendChatMessage_failed:
  assumes "fetch_failure (next_outcome w) = Some e"
    and "w_getElementById w ''chatInput'' = Some i" and "trim (el_value (w_heap w i)) \<noteq> []"
    and "w_getElementById w ''chatMessages'' = Some m"
  shows "fst (sendChatMessage w) = Inr ()"
    and "new_events w (snd (sendChatMessage w)) =
          [Fetch (chat_request (API_BASE_URL @ ''/meta/chat'') (trim (el_value (w_heap w i)))),
           ConsoleError ''Chat error:'' e]"
    and "el_children (w_heap (snd (sendChatMessage w)) m) =
          el_children (w_heap w m) @
           [Child ''div'' ''chat-message user'' [Lit ''<p>'', Val (JStr (trim (el_value (w_heap w i)))), Lit ''</p>''],
            Child ''div'' ''chat-message bot'' [Lit ''<p>Sorry, I encountered an error. Please try again.</p>'']]"
  using fetch_failure_cases [OF assms(1)] assms(2-4)
  by (auto simp: sendChatMessage_def next_outcome_def io_defs Let_def new_events_def)

lemma sendMessage_failed:
  assumes "fetch_failure (next_outcome w) = Some e"
    and "mc_inputField this = Some i" and "trim (el_value (w_heap w i)) \<noteq> []"
    and "mc_messagesDiv this = Some m"
  shows "fst (sendMessage this w) = Inr ()"
    and "new_events w (snd (sendMessage this w)) =
          [Fetch (chat_request ''/api/v1/meta/chat'' (trim (el_value (w_heap w i))))]"
    and "el_children (w_heap (snd (sendMessage this w)) m) =
          el_children (w_heap w m) @
           [Child ''div'' ''chat-message user'' [Lit ''<p>'', Val (JStr (trim (el_value (w_heap w i)))), Lit ''</p>''],
            Child ''div'' ''chat-message bot'' [Lit ''<p>'', Val (JStr ''Sorry, an error occurred.''), Lit ''</p>'']]"
  using fetch_failure_cases [OF assms(1)] assms(2-4)
  by (auto simp: sendMessage_def addMessage_def next_outcome_def io_defs Let_def new_events_def)

subsection \<open>The dashboard and the chat\<close>

text \<open>
  C1. Submitting the analyze form with an empty summoner name shows a validation message. When
  the summonerName input holds the empty string, \<open>analyzeSummoner\<close> sends no request (the
  trace is as it was); on a page that has the rest of the form, the region input and the
  analysisStatus element, it returns normally and the only change to the world is that
  analysisStatus now holds the paragraph \<open>Please enter a summoner name\<close>.
\<close>

theorem analyzeSummoner_empty_name:
  assumes "w_getElementById w ''summonerName'' = Some n" and "el_value (w_heap w n) = []"
  shows \<open>w_trace (snd (analyzeSummoner w)) = w_trace w
    \<and> (\<forall>r s. w_getElementById w ''region'' = Some r \<and> w_getElementById w ''analysisStatus'' = Some s \<longrightarrow>
          analyzeSummoner w =
            (Inr (), w\<lparr>w_heap := (w_heap w)(s := (w_heap w s)
               \<lparr>el_innerHTML := [Lit ''<p style="color: var(--error);">Please enter a summoner name</p>''],
                el_children := []\<rparr>)\<rparr>))\<close>
  using assms by (auto simp: analyzeSummoner_def io_defs split: option.splits)

theorem analyzeSummoner_empty_name_witness:
  \<open>w_getElementById idle_page ''summonerName'' = Some 0 \<and> el_value (w_heap idle_page 0) = []
   \<and> fst (analyzeSummoner idle_page) = Inr ()
   \<and> el_innerHTML (w_heap (snd (analyzeSummoner idle_page)) 2) =
        [Lit ''<p style="color: var(--error);">Please enter a summoner name</p>'']
   \<and> w_trace (snd (analyzeSummoner idle_page)) = []\<close>
proof -
  have h1: "w_getElementById idle_page ''summonerName'' = Some 0"
    and h2: "el_value (w_heap idle_page 0) = []"
    and h3: "w_getElementById idle_page ''region'' = Some 1"
    and h4: "w_getElementById idle_page ''analysisStatus'' = Some 2"
    and h5: "w_trace idle_page = []"
    by (simp_all add: page_defs)
  from analyzeSummoner_empty_name [OF h1 h2] h3 h4 h5 h1 h2 show ?thesis by simp
qed

text \<open>
  C2, as amended. Every fetch sits in a \<open>try\<close>, and a failed fetch is followed by no second
  request and no timer: the trace gains the one request and at most a console line. What the
  \<open>catch\<close> branch does differs from function to function. \<open>checkSystemHealth\<close> logs the
  error and leaves the page as it was; \<open>analyzeSummoner\<close> and \<open>MetaChat.sendMessage\<close> put
  a message in the page and log nothing; \<open>sendChatMessage\<close> does both.
\<close>

theorem failed_fetch_handling:
  assumes "fetch_failure (next_outcome w) = Some e"
  shows \<open>(fst (checkSystemHealth w) = Inr ()
          \<and> new_events w (snd (checkSystemHealth w)) =
            [Fetch health_request, ConsoleError ''Health check failed:'' e]
          \<and> w_heap (snd (checkSystemHealth w)) = w_heap w)
    \<and> (\<forall>n r s. w_getElementById w ''summonerName'' = Some n \<and> el_value (w_heap w n) \<noteq> []
            \<and> w_getElementById w ''region'' = Some r \<and> w_getElementById w ''analysisStatus'' = Some s \<longrightarrow>
          fst (analyzeSummoner w) = Inr ()
          \<and> new_events w (snd (analyzeSummoner w)) =
            [Fetch (analyze_request (el_value (w_heap w n)) (el_value (w_heap w r)))]
          \<and> el_innerHTML (w_heap (snd (analyzeSummoner w)) s) =
            [Lit ''<p style="color: var(--error);">Error: '', Val (JStr (message e)), Lit ''</p>''])
    \<and> (\<forall>i m. w_getElementById w ''chatInput'' = Some i \<and> trim (el_value (w_heap w i)) \<noteq> []
            \<and> w_getElementById w ''chatMessages'' = Some m \<longrightarrow>
          fst (sendChatMessage w) = Inr ()
          \<and> new_events w (snd (sendChatMessage w)) =
            [Fetch (chat_request (API_BASE_URL @ ''/meta/chat'') (trim (el_value (w_heap w i)))),
             ConsoleError ''Chat error:'' e]
          \<and> el_children (w_heap (snd (sendChatMessage w)) m) =
            el_children (w_heap w m) @
             [Child ''div'' ''chat-message user''
                [Lit ''<p>'', Val (JStr (trim (el_value (w_heap w i)))), Lit ''</p>''],
              Child ''div'' ''chat-message bot''
                [Lit ''<p>Sorry, I encountered an error. Please try again.</p>'']])
    \<and> (\<forall>i m. mc_inputField this = Some i \<and> trim (el_value (w_heap w i)) \<noteq> []
            \<and> mc_messagesDiv this = Some m \<longrightarrow>
          fst (sendMessage this w) = Inr ()
          \<and> new_events w (snd (sendMessage this w)) =
            [Fetch (chat_request ''/api/v1/meta/chat'' (trim (el_value (w_heap w i))))]
          \<and> el_children (w_heap (snd (sendMessage this w)) m) =
            el_children (w_heap w m) @
             [Child ''div'' ''chat-message user''
                [Lit ''<p>'', Val (JStr (trim (el_value (w_heap w i)))), Lit ''</p>''],
              Child ''div'' ''chat-message bot''
                [Lit ''<p>'', Val (JStr ''Sorry, an error occurred.''), Lit ''</p>'']])\<close>
proof (intro conjI allI impI)
  show "fst (checkSystemHealth w) = Inr ()"
    and "new_events w (snd (checkSystemHealth w)) =
          [Fetch health_request, ConsoleError ''Health check failed:'' e]"
    and "w_heap (snd (checkSystemHealth w)) = w_heap w"
    by (simp_all add: checkSystemHealth_failed [OF assms] new_events_def)
next
  fix n r s
  assume h: "w_getElementById w ''summonerName'' = Some n \<and> el_value (w_heap w n) \<noteq> []
            \<and> w_getElementById w ''region'' = Some r \<and> w_getElementById w ''analysisStatus'' = Some s"
  then have eq: \<open>analyzeSummoner w =
    (Inr (), w\<lparr>w_heap := (w_heap w)(s := (w_heap w s)
               \<lparr>el_innerHTML := [Lit ''<p style="color: var(--error);">Error: '', Val (JStr (message e)), Lit ''</p>''],
                el_children := []\<rparr>),
              w_trace := w_trace w @ [Fetch (analyze_request (el_value (w_heap w n)) (el_value (w_heap w r)))]\<rparr>)\<close>
    using analyzeSummoner_failed [OF assms] by blast
  show "fst (analyzeSummoner w) = Inr ()"
    by (simp add: eq)
  show "new_events w (snd (analyzeSummoner w)) =
          [Fetch (analyze_request (el_value (w_heap w n)) (el_value (w_heap w r)))]"
    by (simp add: eq new_events_def)
  show \<open>el_innerHTML (w_heap (snd (analyzeSummoner w)) s) =
          [Lit ''<p style="color: var(--error);">Error: '', Val (JStr (message e)), Lit ''</p>'']\<close>
    by (simp add: eq)
next
  fix i m
  assume h: "w_getElementById w ''chatInput'' = Some i \<and> trim (el_value (w_heap w i)) \<noteq> []
            \<and> w_getElementById w ''chatMessages'' = Some m"
  show "fst (sendChatMessage w) = Inr ()"
    using sendChatMessage_failed(1) [OF assms] h by blast
  show "new_events w (snd (sendChatMessage w)) =
            [Fetch (chat_request (API_BASE_URL @ ''/meta/chat'') (trim (el_value (w_heap w i)))),
             ConsoleError ''Chat error:'' e]"
    using sendChatMessage_failed(2) [OF assms] h by blast
  show "el_children (w_heap (snd (sendChatMessage w)) m) =
            el_children (w_heap w m) @
             [Child ''div'' ''chat-message user''
                [Lit ''<p>'', Val (JStr (trim (el_value (w_heap w i)))), Lit ''</p>''],
              Child ''div'' ''chat-message bot''
                [Lit ''<p>Sorry, I encountered an error. Please try again.</p>'']]"
    using sendChatMessage_failed(3) [OF assms] h by blast
next
  fix i m
  assume h: "mc_inputField this = Some i \<and> trim (el_value (w_heap w i)) \<noteq> []
            \<and> mc_messagesDiv this = Some m"
  show "fst (sendMessage this w) = Inr ()"
    using sendMessage_failed(1) [OF assms] h by blast
  show "new_events w (snd (sendMessage this w)) =
            [Fetch (chat_request ''/api/v1/meta/chat'' (trim (el_value (w_heap w i))))]"
    using sendMessage_failed(2) [OF assms] h by blast
  show "el_children (w_heap (snd (sendMessage this w)) m) =
            el_children (w_heap w m) @
             [Child ''div'' ''chat-message user''
                [Lit ''<p>'', Val (JStr (trim (el_value (w_heap w i)))), Lit ''</p>''],
              Child ''div'' ''chat-message bot''
                [Lit ''<p>'', Val (JStr ''Sorry, an error occurred.''), Lit ''</p>'']]"
    using sendMessage_failed(3) [OF assms] h by blast
qed

theorem failed_fetch_handling_witness:
  \<open>fetch_failure (next_outcome typed_page) = Some (TypeError ''Failed to fetch'')
   \<and> new_events typed_page (snd (checkSystemHealth typed_page)) =
        [Fetch health_request, ConsoleError ''Health check failed:'' (TypeError ''Failed to fetch'')]
   \<and> new_events typed_page (snd (analyzeSummoner typed_page)) = [Fetch (analyze_request ''Faker'' ''na1'')]
   \<and> el_innerHTML (w_heap (snd (analyzeSummoner typed_page)) 2) =
        [Lit ''<p style="color: var(--error);">Error: '', Val (JStr ''Failed to fetch''), Lit ''</p>'']
   \<and> new_events typed_page (snd (sendChatMessage typed_page)) =
        [Fetch (chat_request ''/api/v1/meta/chat'' ''hi''),
         ConsoleError ''Chat error:'' (TypeError ''Failed to fetch'')]
   \<and> new_events typed_page (snd (sendMessage widget typed_page)) =
        [Fetch (chat_request ''/api/v1/meta/chat'' ''hi'')]\<close>
proof -
  have f: "fetch_failure (next_outcome typed_page) = Some (TypeError ''Failed to fetch'')"
    by (simp add: next_outcome_def page_defs)
  have h: "w_getElementById typed_page ''summonerName'' = Some 0" "el_value (w_heap typed_page 0) = ''Faker''"
    "w_getElementById typed_page ''region'' = Some 1" "el_value (w_heap typed_page 1) = ''na1''"
    "w_getElementById typed_page ''analysisStatus'' = Some 2"
    "w_getElementById typed_page ''chatInput'' = Some 3" "trim (el_value (w_heap typed_page 3)) = ''hi''"
    "w_getElementById typed_page ''chatMessages'' = Some 4"
    "mc_inputField widget = Some 7" "trim (el_value (w_heap typed_page 7)) = ''hi''"
    "mc_messagesDiv widget = Some 6"
    by (simp_all add: page_defs trim_def js_whitespace_def)
  from failed_fetch_handling [OF f, of widget] f h show ?thesis
    by (simp add: API_BASE_URL_def)
qed

text \<open>
  With the network down, three of the four functions do not both display and log.
\<close>

theorem not_every_catch_displays_and_logs:
  "fetch_failure (next_outcome typed_page) = Some (TypeError ''Failed to fetch'')
   \<and> \<not> displays_and_logs checkSystemHealth typed_page
   \<and> \<not> displays_and_logs analyzeSummoner typed_page
   \<and> \<not> displays_and_logs (sendMessage widget) typed_page"
proof -
  have f: "fetch_failure (next_outcome typed_page) = Some (TypeError ''Failed to fetch'')"
    by (simp add: next_outcome_def page_defs)
  have "w_heap (snd (checkSystemHealth typed_page)) = w_heap typed_page"
    by (simp add: checkSystemHealth_failed [OF f])
  moreover have "\<not> list_ex is_console_error (new_events typed_page (snd (analyzeSummoner typed_page)))"
    by code_simp
  moreover have "\<not> list_ex is_console_error (new_events typed_page (snd (sendMessage widget typed_page)))"
    by code_simp
  ultimately show ?thesis using f by (simp add: displays_and_logs_def)
qed

text \<open>
  C4. Every URL the front end fetches starts with \<open>/api/v1\<close> and is one of the documented
  endpoints. The first four functions below hold the only calls of \<open>fetch\<close> in the sources;
  whatever the page and the network are, every request one of them adds to the trace is
  documented. The other functions of the dashboard and of the chat widget send no request at all,
  and neither do the mock generators (C3).
\<close>

theorem fetched_urls_documented:
  "(\<forall>r \<in> set (requests_of (new_events w (snd (checkSystemHealth w)))).
      prefix API_BASE_URL (url r) \<and> documented_endpoint (url r))
   \<and> (\<forall>r \<in> set (requests_of (new_events w (snd (analyzeSummoner w)))).
      prefix API_BASE_URL (url r) \<and> documented_endpoint (url r))
   \<and> (\<forall>r \<in> set (requests_of (new_events w (snd (sendChatMessage w)))).
      prefix API_BASE_URL (url r) \<and> documented_endpoint (url r))
   \<and> (\<forall>r \<in> set (requests_of (new_events w (snd (sendMessage this w)))).
      prefix API_BASE_URL (url r) \<and> documented_endpoint (url r))
   \<and> requests_of (new_events w (snd (updateAgentStatus services w))) = []
   \<and> requests_of (new_events w (snd (pollAnalysisStatus analysisId w))) = []
   \<and> requests_of (new_events w (snd (MetaChat containerId w))) = []
   \<and> requests_of (new_events w (snd (addMessage this text sender w))) = []"
  by (intro conjI requests_documented no_fetch_no_requests emits_new_events
      emits_checkSystemHealth emits_analyzeSummoner emits_sendChatMessage emits_sendMessage
      emits_updateAgentStatus emits_pollAnalysisStatus emits_MetaChat emits_addMessage)

theorem fetched_urls_documented_witness:
  "map url (requests_of (new_events served_page (snd (checkSystemHealth served_page)))) = [''/api/v1/health'']
   \<and> map url (requests_of (new_events served_page (snd (analyzeSummoner served_page)))) = [''/api/v1/summoner/analyze'']
   \<and> map url (requests_of (new_events served_page (snd (sendChatMessage served_page)))) = [''/api/v1/meta/chat'']
   \<and> map url (requests_of (new_events served_page (snd (sendMessage widget served_page)))) = [''/api/v1/meta/chat'']
   \<and> documented_endpoint ''/api/v1/health'' \<and> documented_endpoint ''/api/v1/summoner/analyze''
   \<and> documented_endpoint ''/api/v1/meta/chat''"
proof -
  have e1: "map url (requests_of (new_events served_page (snd (checkSystemHealth served_page)))) = [''/api/v1/health'']"
    by code_simp
  have e2: "map url (requests_of (new_events served_page (snd (analyzeSummoner served_page)))) = [''/api/v1/summoner/analyze'']"
    by code_simp
  have e3: "map url (requests_of (new_events served_page (snd (sendChatMessage served_page)))) = [''/api/v1/meta/chat'']"
    by code_simp
  have e4: "map url (requests_of (new_events served_page (snd (sendMessage widget served_page)))) = [''/api/v1/meta/chat'']"
    by code_simp
  from fetched_urls_documented [of served_page widget] e1 e2 e3 e4 show ?thesis
    by (simp add: documented_endpoint_def)
qed

text \<open>
  C10. Sending an empty chat message does nothing. When the input's value trims to the empty
  string, \<open>sendChatMessage\<close> and \<open>MetaChat.sendMessage\<close> return with the world exactly as
  it was: no message element appended, the input not cleared, no request sent.
\<close>

theorem empty_chat_message_noop:
  "(w_getElementById w ''chatInput'' = Some i \<and> trim (el_value (w_heap w i)) = []
      \<longrightarrow> sendChatMessage w = (Inr (), w))
   \<and> (mc_inputField this = Some j \<and> trim (el_value (w_heap w j)) = []
      \<longrightarrow> sendMessage this w = (Inr (), w))"
  by (simp add: sendChatMessage_def sendMessage_def io_defs)

theorem empty_chat_message_noop_witness:
  "trim (el_value (w_heap idle_page 3)) = [] \<and> sendChatMessage idle_page = (Inr (), idle_page)
   \<and> trim (el_value (w_heap idle_page 7)) = [] \<and> sendMessage widget idle_page = (Inr (), idle_page)"
proof -
  have h: "w_getElementById idle_page ''chatInput'' = Some 3" "trim (el_value (w_heap idle_page 3)) = []"
    "mc_inputField widget = Some 7" "trim (el_value (w_heap idle_page 7)) = []"
    by (simp_all add: page_defs trim_def js_whitespace_def)
  from empty_chat_message_noop [of idle_page 3 widget 7] h show ?thesis by simp
qed

subsection \<open>The mock generators\<close>



text \<open>
  What \<open>mockNarrative\<close> resolves to: the narrative for one of its four keys, and the default
  for a name that is neither a key nor a member of \<open>Object.prototype\<close>.
\<close>

lemma mockNarrative_known:
  assumes "map_of narratives insightType = Some v"
  shows "fst (mockNarrative insightType w) = Inr v \<and> (\<exists>s. v = JStr s \<and> s \<noteq> [])"
proof -
  from assms have "(insightType, v) \<in> set narratives" by (rule map_of_SomeD)
  then have "\<exists>s. v = JStr s \<and> s \<noteq> []" by (auto simp: narratives_def)
  then show ?thesis
    using assms by (auto simp: mockNarrative_def io_defs js_or_def get_property_def)
qed

lemma mockNarrative_unknown:
  assumes "map_of narratives insightType = None" and "map_of Object_prototype insightType = None"
  shows "fst (mockNarrative insightType w) = Inr (JStr ''Generating narrative insight...'')"
  using assms by (simp add: mockNarrative_def io_defs js_or_def get_property_def)

text \<open>
  C8. \<open>mockNarrative\<close> is claimed to return the default string for every insight type other
  than the four keys of \<open>narratives\<close>. The lookup \<open>narratives[insightType]\<close> also finds the
  members inherited from \<open>Object.prototype\<close>, all of them truthy, so for such a name the
  \<open>||\<close> does not reach the default: for \<open>constructor\<close> the function resolves to the
  \<open>Object\<close> constructor, which is not a string.
\<close>

theorem mockNarrative_inherited_key:
  "fst (mockNarrative ''constructor'' w) = Inr (JNative ''Object'')
   \<and> (\<forall>s. fst (mockNarrative ''constructor'' w) \<noteq> Inr (JStr s))"
  by (simp add: mockNarrative_def io_defs js_or_def get_property_def narratives_def Object_prototype_def)

subsection \<open>The synergy graph\<close>

lemma SynergyGraph_Inr:
  assumes "SynergyGraph container options = Inr g"
  shows "\<exists>width. g = initialize
            \<lparr>sg_width = width,
             sg_height = or_num (options ''height'') 600,
             sg_options =
               [''nodeRadius'' \<mapsto> or_num (options ''nodeRadius'') 10,
                ''linkDistance'' \<mapsto> or_num (options ''linkDistance'') 100,
                ''chargeStrength'' \<mapsto> or_num (options ''chargeStrength'') (- 400)] ++ options,
             sg_simulation =
               \<lparr>sim_linkDistance = None, sim_chargeStrength = None, sim_center = (0, 0),
                sim_collisionRadius = None, sim_alpha = 1, sim_alphaTarget = 0,
                sim_running = False, sim_nodes = [], sim_links = []\<rparr>,
             sg_graphData = None, sg_linkElements = None, sg_nodeElements = None\<rparr>"
  using assms unfolding SynergyGraph_def
  by (auto split: sum.splits)

lemma spread_default:
  "([''nodeRadius'' \<mapsto> a, ''linkDistance'' \<mapsto> b, ''chargeStrength'' \<mapsto> c] ++ options) ''nodeRadius''
     = Some (case options ''nodeRadius'' of Some v \<Rightarrow> v | None \<Rightarrow> a)"
  "([''nodeRadius'' \<mapsto> a, ''linkDistance'' \<mapsto> b, ''chargeStrength'' \<mapsto> c] ++ options) ''linkDistance''
     = Some (case options ''linkDistance'' of Some v \<Rightarrow> v | None \<Rightarrow> b)"
  "([''nodeRadius'' \<mapsto> a, ''linkDistance'' \<mapsto> b, ''chargeStrength'' \<mapsto> c] ++ options) ''chargeStrength''
     = Some (case options ''chargeStrength'' of Some v \<Rightarrow> v | None \<Rightarrow> c)"
  by (simp_all add: map_add_def split: option.splits)

lemma or_num_absent: "or_num None d = d"
  by (simp add: or_num_def)

lemma frame_dragstarted:
  "only_fixed_position d (At (n_x (heap d))) (At (n_y (heap d))) heap (snd (dragstarted event d (this, heap)))"
  by (simp add: only_fixed_position_def dragstarted_def Let_def)

lemma frame_dragged:
  "only_fixed_position d (At (ev_x event)) (At (ev_y event)) heap (snd (dragged event d (this, heap)))"
  by (simp add: only_fixed_position_def dragged_def Let_def)

lemma frame_dragended:
  "only_fixed_position d Null Null heap (snd (dragended event d (this, heap)))"
  by (simp add: only_fixed_position_def dragended_def Let_def)

lemma frame_viz_dragstarted:
  "only_fixed_position d (At (n_x (heap d))) (At (n_y (heap d))) heap (snd (viz_dragstarted event d (simulation, heap)))"
  by (simp add: only_fixed_position_def viz_dragstarted_def Let_def)

lemma frame_viz_dragged:
  "only_fixed_position d (At (ev_x event)) (At (ev_y event)) heap (snd (viz_dragged event d (simulation, heap)))"
  by (simp add: only_fixed_position_def viz_dragged_def Let_def)

lemma frame_viz_dragended:
  "only_fixed_position d Null Null heap (snd (viz_dragended event d (simulation, heap)))"
  by (simp add: only_fixed_position_def viz_dragended_def Let_def)

lemma handlers_on_simulation:
  "fst (dragstarted event d (this, heap)) =
     (if ev_active event = 0
      then this\<lparr>sg_simulation := (sg_simulation this)\<lparr>sim_alphaTarget := 0.3, sim_running := True\<rparr>\<rparr>
      else this)"
  "fst (dragged event d (this, heap)) = this"
  "fst (dragended event d (this, heap)) =
     (if ev_active event = 0
      then this\<lparr>sg_simulation := (sg_simulation this)\<lparr>sim_alphaTarget := 0\<rparr>\<rparr>
      else this)"
  "fst (viz_dragstarted event d (simulation, heap)) =
     (if ev_active event = 0 then simulation\<lparr>sim_alphaTarget := 0.3, sim_running := True\<rparr>
      else simulation)"
  "fst (viz_dragged event d (simulation, heap)) = simulation"
  "fst (viz_dragended event d (simulation, heap)) =
     (if ev_active event = 0 then simulation\<lparr>sim_alphaTarget := 0\<rparr> else simulation)"
  by (simp_all add: dragstarted_def dragged_def dragended_def viz_dragstarted_def viz_dragged_def
      viz_dragended_def Let_def restart_def alphaTarget_def)

lemma render_fields:
  "sg_graphData (render heap graphData g0) = Some graphData"
  "sg_linkElements (render heap graphData g0) =
     Some (map link_base (join (drawn (sg_linkElements g0)) (gd_links graphData)))"
  "\<exists>ns. sg_nodeElements (render heap graphData g0) = Some ns"
  by (simp_all add: render_def renderLinks_def renderNodes_def Let_def link_base_def)

lemma list_ex_shares:
  "list_ex (\<lambda>l. (l_source l = n \<and> l_target l = d) \<or> (l_target l = n \<and> l_source l = d)) links
     = shares_link links n d"
  by (simp add: shares_link_def list_ex_iff)

lemma highlightNode_rendered:
  assumes "sg_nodeElements g = Some ns" and "sg_graphData g = Some gd" and "sg_linkElements g = Some ls"
  shows "highlightNode n g = Inr (g\<lparr>
      sg_nodeElements := Some (map (\<lambda>(d, a). (d,
         a(''opacity'' \<mapsto> ANum (if d = n \<or> shares_link (gd_links gd) n d then 1 else 0.2)))) ns),
      sg_linkElements := Some (map (\<lambda>(l, a). (l,
         a(''stroke-opacity'' \<mapsto> ANum (if incident l n then 1 else 0.1),
           ''stroke-width'' \<mapsto> ANum (if incident l n then js_mul (getLinkWidth (l_value l)) 1.5
                                        else getLinkWidth (l_value l))))) ls)\<rparr>)"
proof -
  have "(\<lambda>(d, a). (d, set_attr ''opacity''
                (Some (ANum (if d = n then 1
                   else if list_ex (\<lambda>l. (l_source l = n \<and> l_target l = d)
                                         \<or> (l_target l = n \<and> l_source l = d)) (gd_links gd)
                        then 1 else 0.2))) a))
        = (\<lambda>(d, a). (d, a(''opacity'' \<mapsto> ANum (if d = n \<or> shares_link (gd_links gd) n d then 1 else 0.2))))"
    by (auto simp: fun_eq_iff set_attr_def list_ex_shares)
  moreover have "(\<lambda>(l, a). (l,
              (set_attr ''stroke-width''
                (Some (ANum (if l_source l = n \<or> l_target l = n
                             then js_mul (getLinkWidth (l_value l)) 1.5 else getLinkWidth (l_value l))))
              (set_attr ''stroke-opacity''
                (Some (ANum (if l_source l = n \<or> l_target l = n then 1 else 0.1))) a))))
        = (\<lambda>(l, a). (l,
         a(''stroke-opacity'' \<mapsto> ANum (if incident l n then 1 else 0.1),
           ''stroke-width'' \<mapsto> ANum (if incident l n then js_mul (getLinkWidth (l_value l)) 1.5
                                        else getLinkWidth (l_value l)))))"
    by (auto simp: fun_eq_iff set_attr_def incident_def)
  ultimately show ?thesis
    using assms by (simp add: highlightNode_def)
qed

lemma reset_after_highlight_links:
  "map (\<lambda>(d, a). (d, set_attr ''stroke-width'' (Some (W d)) (set_attr ''stroke-opacity'' (Some c) a)))
     (map (\<lambda>(l, a). (l, a(''stroke-opacity'' \<mapsto> so l, ''stroke-width'' \<mapsto> sw l)))
       (map (\<lambda>(d, a). (d, set_attr ''stroke-opacity'' (Some c)
                            (set_attr ''stroke-width'' (Some (W d)) (B d a)))) xs))
   = map (\<lambda>(d, a). (d, set_attr ''stroke-opacity'' (Some c)
                         (set_attr ''stroke-width'' (Some (W d)) (B d a)))) xs"
  by (induction xs) (auto simp: set_attr_def fun_eq_iff)

lemma reset_after_highlight_nodes:
  "map (\<lambda>(d, a). (d, set_attr ''opacity'' (Some (ANum 1)) a))
     (map (\<lambda>(d, a). (d, a(''opacity'' \<mapsto> op d))) ns)
   = map (\<lambda>(d, a). (d, a(''opacity'' \<mapsto> ANum 1))) ns"
  by (induction ns) (auto simp: set_attr_def fun_eq_iff)

lemma rendered_links_base:
  "list_all (\<lambda>(l, a). a ''stroke-opacity'' = Some (ANum 0.6)
        \<and> a ''stroke-width'' = Some (ANum (getLinkWidth (l_value l)))) (map link_base xs)"
  by (induction xs) (auto simp: link_base_def set_attr_def)

lemma demo_opacity_rendered:
  "map (\<lambda>(d, a). a ''opacity'') (drawn (sg_nodeElements demo_view)) = [None, None, None, None, None]"
  by code_simp

lemma demo_opacity_reset:
  "map (\<lambda>(d, a). a ''opacity'')
     (drawn (sg_nodeElements (projr (resetHighlight (projr (highlightNode 1 demo_view))))))
   = [Some (ANum 1), Some (ANum 1), Some (ANum 1), Some (ANum 1), Some (ANum 1)]"
  by code_simp

lemma demo_opacity_highlight:
  "map (\<lambda>(d, a). a ''opacity'') (drawn (sg_nodeElements (projr (highlightNode 1 demo_view))))
   = [Some (ANum 1), Some (ANum 1), Some (ANum 1), Some (ANum 0.2), Some (ANum 0.2)]"
  by code_simp

text \<open>
  C5. The constructor takes link distance, charge strength and node radius from its options and
  falls back on 100, -400 and 10 for an option that is absent; \<open>initialize\<close> hands exactly
  these values to the simulation, as the link distance, the many-body strength and, doubled, the
  collision radius. An option that is present is used as it is, zero included: the spread of the
  options overrides the entry built with \<open>||\<close>.
\<close>

theorem SynergyGraph_parameters:
  assumes "SynergyGraph container options = Inr g"
  shows "sg_options g ''linkDistance'' = Some (case options ''linkDistance'' of Some v \<Rightarrow> v | None \<Rightarrow> 100)
    \<and> sg_options g ''chargeStrength'' = Some (case options ''chargeStrength'' of Some v \<Rightarrow> v | None \<Rightarrow> - 400)
    \<and> sg_options g ''nodeRadius'' = Some (case options ''nodeRadius'' of Some v \<Rightarrow> v | None \<Rightarrow> 10)
    \<and> sim_linkDistance (sg_simulation g) = sg_options g ''linkDistance''
    \<and> sim_chargeStrength (sg_simulation g) = sg_options g ''chargeStrength''
    \<and> sim_collisionRadius (sg_simulation g) =
        Some (2 * (case options ''nodeRadius'' of Some v \<Rightarrow> v | None \<Rightarrow> 10))"
proof -
  from SynergyGraph_Inr [OF assms] obtain width where g: "g = initialize
            \<lparr>sg_width = width,
             sg_height = or_num (options ''height'') 600,
             sg_options =
               [''nodeRadius'' \<mapsto> or_num (options ''nodeRadius'') 10,
                ''linkDistance'' \<mapsto> or_num (options ''linkDistance'') 100,
                ''chargeStrength'' \<mapsto> or_num (options ''chargeStrength'') (- 400)] ++ options,
             sg_simulation =
               \<lparr>sim_linkDistance = None, sim_chargeStrength = None, sim_center = (0, 0),
                sim_collisionRadius = None, sim_alpha = 1, sim_alphaTarget = 0,
                sim_running = False, sim_nodes = [], sim_links = []\<rparr>,
             sg_graphData = None, sg_linkElements = None, sg_nodeElements = None\<rparr>" by blast
  have o: "sg_options g =
               [''nodeRadius'' \<mapsto> or_num (options ''nodeRadius'') 10,
                ''linkDistance'' \<mapsto> or_num (options ''linkDistance'') 100,
                ''chargeStrength'' \<mapsto> or_num (options ''chargeStrength'') (- 400)] ++ options"
    by (simp add: g initialize_def)
  have l: "sg_options g ''linkDistance'' = Some (case options ''linkDistance'' of Some v \<Rightarrow> v | None \<Rightarrow> 100)"
    unfolding o spread_default by (simp add: or_num_absent split: option.splits)
  have c: "sg_options g ''chargeStrength'' = Some (case options ''chargeStrength'' of Some v \<Rightarrow> v | None \<Rightarrow> - 400)"
    unfolding o spread_default by (simp add: or_num_absent split: option.splits)
  have r: "sg_options g ''nodeRadius'' = Some (case options ''nodeRadius'' of Some v \<Rightarrow> v | None \<Rightarrow> 10)"
    unfolding o spread_default by (simp add: or_num_absent split: option.splits)
  have s1: "sim_linkDistance (sg_simulation g) = sg_options g ''linkDistance''"
    and s2: "sim_chargeStrength (sg_simulation g) = sg_options g ''chargeStrength''"
    and s3: "sim_collisionRadius (sg_simulation g) = map_option (\<lambda>r. r * 2) (sg_options g ''nodeRadius'')"
    by (simp_all add: g initialize_def)
  from l c r s1 s2 s3 show ?thesis by simp
qed


theorem SynergyGraph_parameters_witness:
  "SynergyGraph (Some 800) [''linkDistance'' \<mapsto> 150, ''chargeStrength'' \<mapsto> 0] = Inr demo_graph
   \<and> sim_linkDistance (sg_simulation demo_graph) = Some 150
   \<and> sim_chargeStrength (sg_simulation demo_graph) = Some 0
   \<and> sim_collisionRadius (sg_simulation demo_graph) = Some 20"
proof -
  have e: "SynergyGraph (Some 800) [''linkDistance'' \<mapsto> 150, ''chargeStrength'' \<mapsto> 0] = Inr demo_graph"
    by (simp add: demo_graph_def SynergyGraph_def)
  from SynergyGraph_parameters [OF e] e show ?thesis by simp
qed

text \<open>
  C6, as amended. On a rendered graph \<open>highlightNode n\<close> gives opacity 1 to \<open>n\<close> and to every
  node sharing a link with \<open>n\<close> and 0.2 to the others, and gives the links incident to \<open>n\<close>
  1.5 times their base width. \<open>resetHighlight\<close> then gives every node opacity 1 and every link
  stroke-opacity 0.6 and its base width. After it the lines have exactly the attributes they had
  after \<open>render\<close>, and so has all the rest of the graph object but for one attribute: the
  circles now carry \<open>opacity\<close> 1, an attribute \<open>render\<close> does not set.
\<close>

theorem highlight_reset_round_trip:
  assumes "g1 = render heap graphData g0"
  shows "\<exists>g2 g3. highlightNode n g1 = Inr g2 \<and> resetHighlight g2 = Inr g3
    \<and> sg_nodeElements g2 = Some (map (\<lambda>(d, a). (d,
         a(''opacity'' \<mapsto> ANum (if d = n \<or> shares_link (gd_links graphData) n d then 1 else 0.2))))
         (drawn (sg_nodeElements g1)))
    \<and> sg_linkElements g2 = Some (map (\<lambda>(l, a). (l,
         a(''stroke-opacity'' \<mapsto> ANum (if incident l n then 1 else 0.1),
           ''stroke-width'' \<mapsto> ANum (if incident l n then js_mul (getLinkWidth (l_value l)) 1.5
                                        else getLinkWidth (l_value l)))))
         (drawn (sg_linkElements g1)))
    \<and> list_all (\<lambda>(l, a). a ''stroke-opacity'' = Some (ANum 0.6)
         \<and> a ''stroke-width'' = Some (ANum (getLinkWidth (l_value l)))) (drawn (sg_linkElements g3))
    \<and> sg_linkElements g3 = sg_linkElements g1
    \<and> sg_nodeElements g3 =
         Some (map (\<lambda>(d, a). (d, a(''opacity'' \<mapsto> ANum 1))) (drawn (sg_nodeElements g1)))
    \<and> g3 = g1\<lparr>sg_nodeElements := sg_nodeElements g3\<rparr>"
proof -
  obtain ns where ns: "sg_nodeElements g1 = Some ns"
    using render_fields(3) assms by blast
  let ?xs = "join (drawn (sg_linkElements g0)) (gd_links graphData)"
  have ls: "sg_linkElements g1 = Some (map link_base ?xs)"
    and gd: "sg_graphData g1 = Some graphData"
    by (simp_all add: assms render_fields)
  let ?g2 = "g1\<lparr>
      sg_nodeElements := Some (map (\<lambda>(d, a). (d,
         a(''opacity'' \<mapsto> ANum (if d = n \<or> shares_link (gd_links graphData) n d then 1 else 0.2)))) ns),
      sg_linkElements := Some (map (\<lambda>(l, a). (l,
         a(''stroke-opacity'' \<mapsto> ANum (if incident l n then 1 else 0.1),
           ''stroke-width'' \<mapsto> ANum (if incident l n then js_mul (getLinkWidth (l_value l)) 1.5
                                        else getLinkWidth (l_value l))))) (map link_base ?xs))\<rparr>"
  let ?g3 = "g1\<lparr>sg_nodeElements := Some (map (\<lambda>(d, a). (d, a(''opacity'' \<mapsto> ANum 1))) ns)\<rparr>"
  have h: "highlightNode n g1 = Inr ?g2"
    by (rule highlightNode_rendered [OF ns gd ls])
  have r: "resetHighlight ?g2 = Inr ?g3"
    using ls
    by (cases g1)
       (simp add: resetHighlight_def link_base_def reset_after_highlight_links
        reset_after_highlight_nodes del: map_map)
  have d3: "drawn (sg_linkElements ?g3) = map link_base ?xs"
    by (simp add: ls drawn_def)
  show ?thesis
  proof (intro exI conjI)
    show "highlightNode n g1 = Inr ?g2" by (rule h)
    show "resetHighlight ?g2 = Inr ?g3" by (rule r)
    show "sg_nodeElements ?g2 = Some (map (\<lambda>(d, a). (d,
         a(''opacity'' \<mapsto> ANum (if d = n \<or> shares_link (gd_links graphData) n d then 1 else 0.2))))
         (drawn (sg_nodeElements g1)))"
      by (simp add: ns drawn_def)
    show "sg_linkElements ?g2 = Some (map (\<lambda>(l, a). (l,
         a(''stroke-opacity'' \<mapsto> ANum (if incident l n then 1 else 0.1),
           ''stroke-width'' \<mapsto> ANum (if incident l n then js_mul (getLinkWidth (l_value l)) 1.5
                                        else getLinkWidth (l_value l)))))
         (drawn (sg_linkElements g1)))"
      by (simp add: ls drawn_def)
    show "list_all (\<lambda>(l, a). a ''stroke-opacity'' = Some (ANum 0.6)
         \<and> a ''stroke-width'' = Some (ANum (getLinkWidth (l_value l)))) (drawn (sg_linkElements ?g3))"
      unfolding d3 by (rule rendered_links_base)
    show "sg_linkElements ?g3 = sg_linkElements g1" by simp
    show "sg_nodeElements ?g3 =
         Some (map (\<lambda>(d, a). (d, a(''opacity'' \<mapsto> ANum 1))) (drawn (sg_nodeElements g1)))"
      by (simp add: ns drawn_def)
    show "?g3 = g1\<lparr>sg_nodeElements := sg_nodeElements ?g3\<rparr>" by simp
  qed
qed


theorem highlight_reset_round_trip_witness:
  "map (\<lambda>(d, a). a ''opacity'') (drawn (sg_nodeElements (projr (highlightNode 1 demo_view))))
     = [Some (ANum 1), Some (ANum 1), Some (ANum 1), Some (ANum 0.2), Some (ANum 0.2)]
   \<and> sg_linkElements (projr (resetHighlight (projr (highlightNode 1 demo_view))))
     = sg_linkElements demo_view"
proof -
  from highlight_reset_round_trip [of demo_view demo_heap demo_data demo_graph 1]
  obtain g2 g3 where "highlightNode 1 demo_view = Inr g2" and "resetHighlight g2 = Inr g3"
    and "sg_linkElements g3 = sg_linkElements demo_view"
    unfolding demo_view_def by blast
  then show ?thesis using demo_opacity_highlight by simp
qed

text \<open>
  On a graph drawn for the first time the circles have no \<open>opacity\<close> attribute, so after a hover
  their attributes are not the ones they had after \<open>render\<close>.
\<close>

theorem reset_differs_from_render:
  "sg_nodeElements (projr (resetHighlight (projr (highlightNode 1 demo_view))))
     \<noteq> sg_nodeElements demo_view"
proof
  assume "sg_nodeElements (projr (resetHighlight (projr (highlightNode 1 demo_view))))
     = sg_nodeElements demo_view"
  then have "map (\<lambda>(d, a). a ''opacity'')
     (drawn (sg_nodeElements (projr (resetHighlight (projr (highlightNode 1 demo_view))))))
    = map (\<lambda>(d, a). a ''opacity'') (drawn (sg_nodeElements demo_view))"
    by simp
  then show False
    unfolding demo_opacity_rendered demo_opacity_reset by simp
qed

text \<open>
  C7. The drag handlers change only the fixed position of the dragged node: drag-start sets
  \<open>fx\<close> and \<open>fy\<close> to the node's \<open>x\<close> and \<open>y\<close>, drag sets them to the pointer's
  coordinates, drag-end sets them to \<open>null\<close>; no other field of that node and no other node
  changes. This holds for the handlers of \<open>SynergyGraph.drag\<close> and for those of
  \<open>createForceDirectedGraph\<close>. Besides the nodes, drag-start and drag-end set the alpha target
  of the simulation (and drag-start restarts it) when no other gesture is active; the graph object
  is otherwise as it was.
\<close>

theorem drag_handlers_frame:
  "only_fixed_position d (At (n_x (heap d))) (At (n_y (heap d))) heap (snd (dragstarted event d (this, heap)))
   \<and> only_fixed_position d (At (ev_x event)) (At (ev_y event)) heap (snd (dragged event d (this, heap)))
   \<and> only_fixed_position d Null Null heap (snd (dragended event d (this, heap)))
   \<and> only_fixed_position d (At (n_x (heap d))) (At (n_y (heap d))) heap
        (snd (viz_dragstarted event d (simulation, heap)))
   \<and> only_fixed_position d (At (ev_x event)) (At (ev_y event)) heap
        (snd (viz_dragged event d (simulation, heap)))
   \<and> only_fixed_position d Null Null heap (snd (viz_dragended event d (simulation, heap)))
   \<and> fst (dragstarted event d (this, heap)) =
        (if ev_active event = 0
         then this\<lparr>sg_simulation := (sg_simulation this)\<lparr>sim_alphaTarget := 0.3, sim_running := True\<rparr>\<rparr>
         else this)
   \<and> fst (dragged event d (this, heap)) = this
   \<and> fst (dragended event d (this, heap)) =
        (if ev_active event = 0
         then this\<lparr>sg_simulation := (sg_simulation this)\<lparr>sim_alphaTarget := 0\<rparr>\<rparr>
         else this)
   \<and> fst (viz_dragstarted event d (simulation, heap)) =
        (if ev_active event = 0 then simulation\<lparr>sim_alphaTarget := 0.3, sim_running := True\<rparr>
         else simulation)
   \<and> fst (viz_dragged event d (simulation, heap)) = simulation
   \<and> fst (viz_dragended event d (simulation, heap)) =
        (if ev_active event = 0 then simulation\<lparr>sim_alphaTarget := 0\<rparr> else simulation)"
  by (intro conjI frame_dragstarted frame_dragged frame_dragended frame_viz_dragstarted
      frame_viz_dragged frame_viz_dragended handlers_on_simulation)

theorem drag_handlers_frame_witness:
  "n_fx (snd (dragstarted grab 1 (demo_graph, demo_heap)) 1) = At 100
   \<and> n_fy (snd (dragstarted grab 1 (demo_graph, demo_heap)) 1) = At 50
   \<and> n_x (snd (dragstarted grab 1 (demo_graph, demo_heap)) 1) = 100
   \<and> snd (dragstarted grab 1 (demo_graph, demo_heap)) 2 = demo_heap 2
   \<and> n_fx (snd (dragged grab 1 (demo_graph, demo_heap)) 1) = At 240
   \<and> snd (dragged grab 1 (demo_graph, demo_heap)) 0 = demo_heap 0
   \<and> n_fy (snd (viz_dragended grab 1 (sg_simulation demo_graph, demo_heap)) 1) = Null
   \<and> snd (viz_dragended grab 1 (sg_simulation demo_graph, demo_heap)) 3 = demo_heap 3
   \<and> sim_alphaTarget (sg_simulation (fst (dragstarted grab 1 (demo_graph, demo_heap)))) = 0.3"
proof -
  have n: "(2::nat) \<noteq> 1" "(0::nat) \<noteq> 1" "(3::nat) \<noteq> 1" by simp_all
  have v: "n_x (demo_heap 1) = 100" "n_y (demo_heap 1) = 50" "ev_x grab = 240" "ev_active grab = 0"
    by (simp_all add: demo_heap_def grab_def)
  from drag_handlers_frame [of 1 demo_heap grab demo_graph "sg_simulation demo_graph"] n v
  show ?thesis
    by (simp add: only_fixed_position_def)
qed

subsection \<open>Link styling\<close>

lemma rhe_of_int: "round_half_even (of_int n) = n"
  by (simp add: round_half_even_def)

lemma rhe_bounds: "\<lfloor>x\<rfloor> \<le> round_half_even x" "round_half_even x \<le> \<lfloor>x\<rfloor> + 1"
  by (simp_all add: round_half_even_def Let_def)

lemma rhe_same_floor:
  assumes "\<lfloor>x\<rfloor> = \<lfloor>y\<rfloor>" and "x \<le> y"
  shows "round_half_even x \<le> round_half_even y"
proof -
  let ?f = "\<lfloor>y\<rfloor>"
  have d: "x - of_int ?f \<le> y - of_int ?f" using assms(2) by simp
  show ?thesis
    unfolding round_half_even_def Let_def assms(1)
    using d by (simp split: if_splits)
qed

lemma rhe_mono:
  assumes "x \<le> y"
  shows "round_half_even x \<le> round_half_even y"
proof (cases "\<lfloor>x\<rfloor> = \<lfloor>y\<rfloor>")
  case True
  then show ?thesis using assms by (rule rhe_same_floor)
next
  case False
  then have "\<lfloor>x\<rfloor> < \<lfloor>y\<rfloor>" using floor_mono [OF assms] by simp
  then have "round_half_even x \<le> \<lfloor>y\<rfloor>" using rhe_bounds(2) [of x] by linarith
  then show ?thesis using rhe_bounds(1) [of y] by linarith
qed

lemma floor_neg_nonint:
  assumes "x \<noteq> of_int \<lfloor>x\<rfloor>"
  shows "\<lfloor>- x\<rfloor> = - \<lfloor>x\<rfloor> - 1"
proof -
  have "\<lceil>x\<rceil> = \<lfloor>x\<rfloor> + 1" using assms by (simp add: ceiling_altdef)
  then show ?thesis by (simp add: ceiling_def)
qed

lemma rhe_neg: "round_half_even (- x) = - round_half_even x"
proof (cases "x = of_int \<lfloor>x\<rfloor>")
  case True
  then have "round_half_even x = \<lfloor>x\<rfloor>" using rhe_of_int [of "\<lfloor>x\<rfloor>"] by simp
  moreover have "- x = of_int (- \<lfloor>x\<rfloor>)" using True by simp
  then have "round_half_even (- x) = - \<lfloor>x\<rfloor>" using rhe_of_int [of "- \<lfloor>x\<rfloor>"] by simp
  ultimately show ?thesis by simp
next
  case False
  note f = floor_neg_nonint [OF False]
  have "of_int \<lfloor>x\<rfloor> \<le> x" by (rule of_int_floor_le)
  moreover have "of_int \<lfloor>x\<rfloor> \<noteq> x" using False by (rule not_sym)
  ultimately have "of_int \<lfloor>x\<rfloor> < x" by (rule order.not_eq_order_implies_strict [rotated])
  then have d: "0 < x - of_int \<lfloor>x\<rfloor>" by linarith
  have e: "- x - of_int (- \<lfloor>x\<rfloor> - 1) = 1 - (x - of_int \<lfloor>x\<rfloor>)" by simp
  show ?thesis
    unfolding round_half_even_def Let_def f e
    using d by (simp split: if_splits)
qed


lemma floor_log2_floor:
  assumes "1 \<le> (x::real)"
  shows "\<lfloor>log 2 (of_int \<lfloor>x\<rfloor>)\<rfloor> = \<lfloor>log 2 x\<rfloor>"
proof -
  let ?k = "\<lfloor>log 2 x\<rfloor>"
  have x0: "0 < x" using assms by simp
  have "0 \<le> log 2 x" using assms x0 by (simp add: zero_le_log_cancel_iff)
  then have k0: "0 \<le> ?k" by simp
  have b: "2 powr of_int ?k \<le> x" "x < 2 powr of_int (?k + 1)"
    using floor_log_eq_powr_iff [of x 2 ?k] x0 by simp_all
  have p: "(2::real) powr of_int ?k = of_int (2 ^ nat ?k)"
    "(2::real) powr of_int (?k + 1) = of_int (2 ^ nat (?k + 1))"
    using k0 by (simp_all add: powr_real_of_int del: of_int_add)
  have l: "(2::int) ^ nat ?k \<le> \<lfloor>x\<rfloor>"
    using b(1) unfolding p(1) by (simp add: le_floor_iff)
  have u: "\<lfloor>x\<rfloor> < (2::int) ^ nat (?k + 1)"
    using b(2) unfolding p(2) by (simp add: floor_less_iff)
  have f0: "0 < (of_int \<lfloor>x\<rfloor> :: real)" using assms by simp
  have "(2::real) powr of_int ?k \<le> of_int \<lfloor>x\<rfloor>"
    unfolding p(1) using l by (simp only: of_int_le_iff)
  moreover have "of_int \<lfloor>x\<rfloor> < (2::real) powr of_int (?k + 1)"
    unfolding p(2) using u by (simp only: of_int_less_iff)
  ultimately show ?thesis
    using floor_log_eq_powr_iff [of "of_int \<lfloor>x\<rfloor>" 2 ?k] f0 by simp
qed

lemma binade_ge1:
  assumes "1 \<le> x"
  shows "binade x = \<lfloor>log 2 x\<rfloor>"
proof -
  have "0 < \<lfloor>x\<rfloor>" using assms by simp
  then have "bitlen \<lfloor>x\<rfloor> - 1 = \<lfloor>log 2 (of_int \<lfloor>x\<rfloor>)\<rfloor>" by (simp add: bitlen_alt_def)
  then show ?thesis using assms by (simp add: binade_def floor_log2_floor)
qed

lemma binade_lt1:
  assumes "0 < x" and "x < 1"
  shows "binade x = \<lfloor>log 2 x\<rfloor>"
proof -
  define y where "y = 1 / x"
  define k where "k = \<lfloor>log 2 y\<rfloor>"
  have y1: "1 \<le> y" and y0: "0 < y" using assms by (simp_all add: y_def)
  have k: "bitlen \<lfloor>y\<rfloor> - 1 = k"
    using binade_ge1 [OF y1] y1 by (simp add: binade_def k_def)
  have lx: "log 2 x = - log 2 y" using assms by (simp add: y_def log_divide)
  have b: "2 powr of_int k \<le> y" "y < 2 powr of_int (k + 1)"
    using floor_log_eq_powr_iff [of y 2 k] y0 by (simp_all add: k_def)
  have pk: "2 powi k = (2::real) powr of_int k" by (simp add: powr_real_of_int')
  have d: "binade x = (if y = 2 powi k then - k else - k - 1)"
    using assms(2) k by (simp add: binade_def Let_def y_def)
  show ?thesis
  proof (cases "y = 2 powi k")
    case True
    then have "log 2 y = log 2 (2 powr of_int k)" unfolding pk by simp
    then have "log 2 y = of_int k" by simp
    then have "\<lfloor>log 2 x\<rfloor> = - k" unfolding lx by simp
    then show ?thesis using True d by simp
  next
    case False
    then have "2 powr of_int k < y" using b(1) unfolding pk by simp
    then have "of_int k < log 2 y" using y0 by (simp add: less_log_iff)
    moreover have "log 2 y < of_int (k + 1)" using b(2) y0 by (simp add: log_less_iff)
    ultimately have "of_int (- k - 1) \<le> log 2 x" "log 2 x < of_int (- k - 1) + 1"
      unfolding lx by simp_all
    then have "\<lfloor>log 2 x\<rfloor> = - k - 1" by (simp only: floor_unique)
    then show ?thesis using False d by simp
  qed
qed

lemma binade_log:
  assumes "0 < x"
  shows "binade x = \<lfloor>log 2 x\<rfloor>"
  using assms binade_ge1 binade_lt1 by (cases "1 \<le> x") simp_all

lemma binade_bounds:
  assumes "0 < x"
  shows "2 powi binade x \<le> x" and "x < 2 powi (binade x + 1)"
  using floor_log_eq_powr_iff [of x 2 "binade x"] assms binade_log [OF assms]
  by (simp_all add: powr_real_of_int' del: of_int_add)

lemma binade_mono:
  assumes "0 < x" and "x \<le> y"
  shows "binade x \<le> binade y"
proof -
  have "log 2 x \<le> log 2 y" using assms by simp
  then show ?thesis using assms by (simp add: binade_log floor_mono)
qed


lemma nearest_double_alt: "x \<noteq> 0 \<Longrightarrow> nearest_double x = of_int (round_half_even (x / 2 powi ulp_exp x)) * 2 powi ulp_exp x"
  by (simp add: nearest_double_def ulp_exp_def Let_def)

lemma nearest_double_zero: "nearest_double 0 = 0"
  by (simp add: nearest_double_def)

lemma nearest_double_neg: "nearest_double (- x) = - nearest_double x"
proof (cases "x = 0")
  case True
  then show ?thesis by (simp add: nearest_double_zero)
next
  case False
  have "ulp_exp (- x) = ulp_exp x" by (simp add: ulp_exp_def)
  then show ?thesis using False by (simp add: nearest_double_alt rhe_neg)
qed

lemma pow2_pos: "0 < (2::real) powi q"
  by (simp add: power_int_def)

lemma nearest_double_nonneg:
  assumes "0 \<le> x"
  shows "0 \<le> nearest_double x"
proof (cases "x = 0")
  case True
  then show ?thesis by (simp add: nearest_double_zero)
next
  case False
  have "0 \<le> x / 2 powi ulp_exp x" using assms pow2_pos [of "ulp_exp x"] by simp
  then have "round_half_even 0 \<le> round_half_even (x / 2 powi ulp_exp x)" by (rule rhe_mono)
  then have "0 \<le> round_half_even (x / 2 powi ulp_exp x)" using rhe_of_int [of 0] by simp
  then show ?thesis using False pow2_pos [of "ulp_exp x"] by (simp add: nearest_double_alt)
qed

lemma nearest_double_mono_pos:
  assumes "0 < x" and "x \<le> y"
  shows "nearest_double x \<le> nearest_double y"
proof -
  have y0: "0 < y" using assms by simp
  define qx where "qx = ulp_exp x"
  define qy where "qy = ulp_exp y"
  have bm: "binade x \<le> binade y" using assms by (rule binade_mono)
  have q: "qx \<le> qy" using bm assms y0 by (simp add: qx_def qy_def ulp_exp_def)
  have fx: "nearest_double x = of_int (round_half_even (x / 2 powi qx)) * 2 powi qx"
    and fy: "nearest_double y = of_int (round_half_even (y / 2 powi qy)) * 2 powi qy"
    using assms(1) y0 by (simp_all add: nearest_double_alt qx_def qy_def)
  show ?thesis
  proof (cases "qx = qy")
    case True
    have "x / 2 powi qy \<le> y / 2 powi qy"
      using assms(2) pow2_pos [of qy] by (simp add: divide_right_mono)
    then have "round_half_even (x / 2 powi qy) \<le> round_half_even (y / 2 powi qy)" by (rule rhe_mono)
    then show ?thesis unfolding fx fy True using pow2_pos [of qy] by simp
  next
    case False
    then have lt: "qx < qy" using q by simp
    define ey where "ey = binade y"
    have qy_eq: "qy = ey - 52"
      using lt assms(1) y0 by (auto simp: qx_def qy_def ulp_exp_def ey_def max_def split: if_splits)
    have ex: "binade x + 1 \<le> ey"
      using lt qy_eq assms(1) by (simp add: qx_def ulp_exp_def max_def split: if_splits)
    have d: "0 \<le> ey - qx" using lt qy_eq by simp
    \<comment> \<open>the lower value rounds to at most \<open>2 powi ey\<close>\<close>
    have "x < 2 powi (binade x + 1)" using binade_bounds(2) [OF assms(1)] .
    also have "\<dots> \<le> 2 powi ey" using ex by (simp add: power_int_increasing)
    finally have xle: "x \<le> 2 powi ey" by simp
    have split_x: "(2::real) powi ey = 2 powi (ey - qx) * 2 powi qx"
      using power_int_add [of "2::real" "ey - qx" qx] by simp
    have int_x: "(2::real) powi (ey - qx) = of_int (2 ^ nat (ey - qx))"
      using d by (simp add: power_int_def)
    have "x / 2 powi qx \<le> 2 powi (ey - qx)"
      using xle pow2_pos [of qx] unfolding split_x by (simp add: pos_divide_le_eq)
    then have "round_half_even (x / 2 powi qx) \<le> round_half_even (of_int (2 ^ nat (ey - qx)))"
      unfolding int_x by (rule rhe_mono)
    then have "round_half_even (x / 2 powi qx) \<le> 2 ^ nat (ey - qx)" by (simp only: rhe_of_int)
    then have "(of_int (round_half_even (x / 2 powi qx)) :: real) \<le> of_int (2 ^ nat (ey - qx))"
      by (simp only: of_int_le_iff)
    then have "nearest_double x \<le> 2 powi (ey - qx) * 2 powi qx"
      unfolding fx int_x using pow2_pos [of qx] by (simp add: mult_right_mono)
    then have ux: "nearest_double x \<le> 2 powi ey" unfolding split_x .
    \<comment> \<open>the higher value rounds to at least \<open>2 powi ey\<close>\<close>
    have yge: "2 powi ey \<le> y" using binade_bounds(1) [OF y0] by (simp add: ey_def)
    have split_y: "(2::real) powi ey = 2 powi 52 * 2 powi qy"
      using power_int_add [of "2::real" 52 qy] qy_eq by simp
    have int_y: "(2::real) powi 52 = of_int (2 ^ 52)" by (simp add: power_int_def)
    have "2 powi 52 \<le> y / 2 powi qy"
      using yge pow2_pos [of qy] unfolding split_y by (simp add: pos_le_divide_eq)
    then have "round_half_even (of_int (2 ^ 52)) \<le> round_half_even (y / 2 powi qy)"
      unfolding int_y by (rule rhe_mono)
    then have "2 ^ 52 \<le> round_half_even (y / 2 powi qy)" by (simp only: rhe_of_int)
    then have "(of_int (2 ^ 52) :: real) \<le> of_int (round_half_even (y / 2 powi qy))"
      by (simp only: of_int_le_iff)
    then have "2 powi 52 * 2 powi qy \<le> nearest_double y"
      unfolding fy int_y using pow2_pos [of qy] by (simp add: mult_right_mono)
    then have "2 powi ey \<le> nearest_double y" unfolding split_y .
    with ux show ?thesis by simp
  qed
qed

lemma nearest_double_mono:
  assumes "x \<le> y"
  shows "nearest_double x \<le> nearest_double y"
proof -
  consider "0 < x" | "x \<le> 0" "0 \<le> y" | "y < 0" by linarith
  then show ?thesis
  proof cases
    case 1
    then show ?thesis using assms by (rule nearest_double_mono_pos)
  next
    case 2
    have "0 \<le> nearest_double (- x)" using 2(1) by (simp add: nearest_double_nonneg)
    then have "nearest_double x \<le> 0" by (simp add: nearest_double_neg)
    moreover have "0 \<le> nearest_double y" using 2(2) by (rule nearest_double_nonneg)
    ultimately show ?thesis by simp
  next
    case 3
    then have "0 < - y" "- y \<le> - x" using assms by simp_all
    then have "nearest_double (- y) \<le> nearest_double (- x)" by (rule nearest_double_mono_pos)
    then show ?thesis by (simp add: nearest_double_neg)
  qed
qed

lemma binade_less:
  assumes "0 < x" and "x < 2 powi (b + 1)"
  shows "binade x \<le> b"
proof (rule ccontr)
  assume "\<not> binade x \<le> b"
  then have "b + 1 \<le> binade x" by simp
  then have "(2::real) powi (b + 1) \<le> 2 powi binade x" by (intro power_int_increasing) simp_all
  also have "\<dots> \<le> x" using binade_bounds(1) [OF assms(1)] .
  finally show False using assms(2) by simp
qed

lemma nearest_double_representable:
  assumes m: "\<bar>m\<bar> < 2 ^ 53" and e: "- 1074 \<le> e"
  shows "nearest_double (of_int m * 2 powi e) = of_int m * 2 powi e"
proof (cases "m = 0")
  case True
  then show ?thesis by (simp add: nearest_double_def)
next
  case False
  define x :: real where "x = of_int m * 2 powi e"
  define q where "q = ulp_exp x"
  have x0: "x \<noteq> 0" using False by (simp add: x_def)
  have ax: "\<bar>x\<bar> = of_int \<bar>m\<bar> * 2 powi e" by (simp add: x_def abs_mult)
  have "(of_int \<bar>m\<bar> :: real) < of_int (2 ^ 53)" using m by (simp only: of_int_less_iff)
  then have "(of_int \<bar>m\<bar> :: real) < 2 powi 53" by simp
  then have "\<bar>x\<bar> < 2 powi 53 * 2 powi e" unfolding ax by (intro mult_strict_right_mono pow2_pos)
  also have "\<dots> = 2 powi (53 + e)" by (rule power_int_add [symmetric]) simp
  also have "53 + e = e + 52 + 1" by simp
  finally have "binade \<bar>x\<bar> \<le> e + 52" using x0 by (intro binade_less) simp_all
  then have qe: "q \<le> e" using e by (simp add: q_def ulp_exp_def)
  define n where "n = nat (e - q)"
  have "(2::real) powi e = 2 powi (int n) * 2 powi q"
    using qe by (simp add: n_def power_int_add [symmetric])
  then have s: "(2::real) powi e = 2 ^ n * 2 powi q" by (simp only: power_int_of_nat)
  have "x / 2 powi q = of_int m * 2 ^ n" unfolding x_def s using pow2_pos [of q] by simp
  also have "\<dots> = of_int (m * 2 ^ n)" by simp
  finally have d: "x / 2 powi q = of_int (m * 2 ^ n)" .
  have "nearest_double x = of_int (round_half_even (x / 2 powi q)) * 2 powi q"
    unfolding q_def using x0 by (rule nearest_double_alt)
  also have "\<dots> = of_int (m * 2 ^ n) * 2 powi q" unfolding d rhe_of_int ..
  also have "\<dots> = x" unfolding x_def s by simp
  finally show ?thesis unfolding x_def .
qed

lemma nearest_double_representable':
  assumes m: "\<bar>m\<bar> \<le> 2 ^ 53" and e: "- 1074 \<le> e"
  shows "nearest_double (of_int m * 2 powi e) = of_int m * 2 powi e"
proof (cases "\<bar>m\<bar> < 2 ^ 53")
  case True
  then show ?thesis using e by (rule nearest_double_representable)
next
  case False
  define k where "k = m div 2"
  have "\<bar>m\<bar> = 2 ^ 53" using False m by simp
  then have "m = 2 ^ 53 \<or> m = - (2 ^ 53)" by (simp add: abs_if split: if_splits)
  then have mk: "m = k * 2" and k: "\<bar>k\<bar> < 2 ^ 53" unfolding k_def by auto
  have p: "(2::real) powi (e + 1) = 2 powi e * 2 powi 1" by (rule power_int_add) simp
  have "(of_int m :: real) * 2 powi e = of_int k * (2 powi e * 2)" unfolding mk by simp
  also have "\<dots> = of_int k * 2 powi (e + 1)" unfolding p by simp
  finally have x: "(of_int m :: real) * 2 powi e = of_int k * 2 powi (e + 1)" .
  have "- 1074 \<le> e + 1" using e by simp
  with k show ?thesis unfolding x by (rule nearest_double_representable)
qed

lemma rhe_abs_le:
  assumes "\<bar>x\<bar> \<le> of_int N"
  shows "\<bar>round_half_even x\<bar> \<le> N"
proof -
  have u: "x \<le> of_int N" and l: "of_int (- N) \<le> x" using assms by (simp_all add: abs_le_iff)
  have "round_half_even x \<le> N" using rhe_mono [OF u] by (simp only: rhe_of_int)
  moreover have "- N \<le> round_half_even x" using rhe_mono [OF l] by (simp only: rhe_of_int)
  ultimately show ?thesis by (simp add: abs_le_iff)
qed

lemma nearest_double_form:
  assumes "x \<noteq> 0"
  shows "\<bar>round_half_even (x / 2 powi ulp_exp x)\<bar> \<le> 2 ^ 53"
proof -
  define q where "q = ulp_exp x"
  define b where "b = binade \<bar>x\<bar>"
  have bq: "b + 1 \<le> q + 53" by (simp add: q_def b_def ulp_exp_def)
  have "\<bar>x\<bar> < 2 powi (b + 1)" unfolding b_def using assms by (intro binade_bounds) simp
  also have "\<dots> \<le> 2 powi (q + 53)" using bq by (intro power_int_increasing) simp_all
  also have "\<dots> = 2 powi (53 + q)" by (simp only: add.commute)
  also have "\<dots> = 2 powi 53 * 2 powi q" by (rule power_int_add) simp
  finally have "\<bar>x\<bar> < 2 powi 53 * 2 powi q" .
  then have "\<bar>x\<bar> / 2 powi q < 2 powi 53"
    using pow2_pos [of q] by (simp only: pos_divide_less_eq)
  moreover have "\<bar>x / 2 powi q\<bar> = \<bar>x\<bar> / 2 powi q"
    using pow2_pos [of q] by (simp only: abs_divide abs_of_pos)
  moreover have "(2::real) powi 53 = of_int (2 ^ 53)" by simp
  ultimately have "\<bar>x / 2 powi q\<bar> \<le> of_int (2 ^ 53)" by (simp only: less_imp_le)
  then show ?thesis unfolding q_def by (rule rhe_abs_le)
qed

lemma nearest_double_idem: "nearest_double (nearest_double x) = nearest_double x"
proof (cases "x = 0")
  case True
  then show ?thesis by (simp add: nearest_double_def)
next
  case False
  have q: "- 1074 \<le> ulp_exp x" by (simp add: ulp_exp_def)
  show ?thesis unfolding nearest_double_alt [OF False]
    using nearest_double_form [OF False] q by (rule nearest_double_representable')
qed

lemma is_double_small:
  assumes "nearest_double x = x" and "\<bar>x\<bar> \<le> 4"
  shows "is_double x"
proof -
  have "(4::real) < 2 ^ 1024" by simp
  with assms show ?thesis unfolding is_double_def by linarith
qed

lemma getLinkWidth_mono:
  assumes "v1 \<le> v2"
  shows "getLinkWidth v1 \<le> getLinkWidth v2"
proof -
  have "v1 * 5 \<le> v2 * 5" using assms by simp
  then have "js_mul v1 5 \<le> js_mul v2 5" unfolding js_mul_def by (rule nearest_double_mono)
  then have "1 + js_mul v1 5 \<le> 1 + js_mul v2 5" by simp
  then show ?thesis unfolding getLinkWidth_def js_add_def by (rule nearest_double_mono)
qed

lemma getLinkWidth_exact:
  assumes "is_double (v * 5)" and "is_double (1 + v * 5)"
  shows "getLinkWidth v = 1 + v * 5"
  using assms by (simp add: getLinkWidth_def js_add_def js_mul_def is_double_def)

lemma thresholds:
  "lit 0.4 = 3602879701896397 / 9007199254740992"
  "lit 0.6 = 5404319552844595 / 9007199254740992"
  "lit 0.8 = 3602879701896397 / 4503599627370496"
  by code_simp+

lemma getLinkWidth_upper:
  assumes "v \<le> 2 ^ 1021"
  shows "getLinkWidth v \<le> 6 * 2 ^ 1021"
proof -
  define P :: real where "P = 2 powi 1021"
  have P: "(2::real) ^ 1021 = P" by (simp add: P_def)
  have P1: "1 \<le> P" unfolding P_def by (rule one_le_power_int) simp_all
  have d5: "nearest_double (5 * P) = 5 * P"
    using nearest_double_representable [of 5 1021] by (simp add: P_def)
  have d6: "nearest_double (6 * P) = 6 * P"
    using nearest_double_representable [of 6 1021] by (simp add: P_def)
  have "v * 5 \<le> 5 * P" using assms unfolding P by simp
  then have "nearest_double (v * 5) \<le> nearest_double (5 * P)" by (rule nearest_double_mono)
  then have "1 + nearest_double (v * 5) \<le> 6 * P" unfolding d5 using P1 by simp
  then have "nearest_double (1 + nearest_double (v * 5)) \<le> nearest_double (6 * P)"
    by (rule nearest_double_mono)
  then show ?thesis unfolding d6 P getLinkWidth_def js_add_def js_mul_def .
qed

lemma getLinkWidth_lower:
  assumes "- (2 ^ 1021) \<le> v"
  shows "- (6 * 2 ^ 1021) \<le> getLinkWidth v"
proof -
  define P :: real where "P = 2 powi 1021"
  have P: "(2::real) ^ 1021 = P" by (simp add: P_def)
  have P1: "1 \<le> P" unfolding P_def by (rule one_le_power_int) simp_all
  have d5: "nearest_double (- (5 * P)) = - (5 * P)"
    using nearest_double_representable [of "- 5" 1021] by (simp add: P_def)
  have d6: "nearest_double (- (6 * P)) = - (6 * P)"
    using nearest_double_representable [of "- 6" 1021] by (simp add: P_def)
  have "- (5 * P) \<le> v * 5" using assms unfolding P by simp
  then have "nearest_double (- (5 * P)) \<le> nearest_double (v * 5)" by (rule nearest_double_mono)
  then have "- (6 * P) \<le> 1 + nearest_double (v * 5)" unfolding d5 using P1 by simp
  then have "nearest_double (- (6 * P)) \<le> nearest_double (1 + nearest_double (v * 5))"
    by (rule nearest_double_mono)
  then show ?thesis unfolding d6 P getLinkWidth_def js_add_def js_mul_def .
qed

lemma getLinkWidth_finite:
  assumes "no_overflow v"
  shows "\<bar>getLinkWidth v\<bar> < 2 ^ 1024"
proof -
  define P :: real where "P = 2 ^ 1021"
  have P0: "0 < P" by (simp add: P_def)
  have e: "(2::real) ^ 1024 = 8 * P" by (simp add: P_def)
  have b: "- P \<le> v" "v \<le> P" using assms by (simp_all add: no_overflow_def abs_le_iff P_def)
  have "getLinkWidth v \<le> 6 * P" "- (6 * P) \<le> getLinkWidth v"
    using getLinkWidth_upper [of v] getLinkWidth_lower [of v] b unfolding P_def by simp_all
  then show ?thesis unfolding e using P0 by (simp add: abs_less_iff)
qed

lemma getLinkWidth_is_double:
  assumes "no_overflow v"
  shows "is_double (getLinkWidth v)"
proof -
  have "nearest_double (getLinkWidth v) = getLinkWidth v"
    unfolding getLinkWidth_def js_add_def by (rule nearest_double_idem)
  then show ?thesis unfolding is_double_def using getLinkWidth_finite [OF assms] by simp
qed

text \<open>
  C9, as amended. Link styling is monotone and total in the arithmetic of doubles.
  \<open>getLinkWidth v\<close> is \<open>1 + v * 5\<close> with the product and the sum each rounded to the nearest
  double, is \<open>1 + v * 5\<close> itself when both are doubles, and is a finite double whenever
  nothing overflows. It is non-decreasing: of two links the one with the higher synergy value
  never has the smaller stroke width (for values whose width does not overflow); two different
  values can have the same width. \<open>getLinkColor\<close> gives every value a colour, by the partition
  \<open>v > 0.8\<close>, \<open>0.6 < v \<le> 0.8\<close>, \<open>0.4 < v \<le> 0.6\<close>, \<open>v \<le> 0.4\<close>, each bound being the double
  its literal denotes.
\<close>

theorem link_styling_weakly_monotone_total:
  "(no_overflow v1 \<and> no_overflow v2 \<and> v1 \<le> v2 \<longrightarrow> getLinkWidth v1 \<le> getLinkWidth v2)
   \<and> getLinkWidth v = nearest_double (1 + nearest_double (v * 5))
   \<and> (is_double (v * 5) \<and> is_double (1 + v * 5) \<longrightarrow> getLinkWidth v = 1 + v * 5)
   \<and> (no_overflow v \<longrightarrow> is_double (getLinkWidth v))
   \<and> (lit 0.8 < v \<longrightarrow> getLinkColor v = ''#00c896'')
   \<and> (lit 0.6 < v \<and> v \<le> lit 0.8 \<longrightarrow> getLinkColor v = ''#0066cc'')
   \<and> (lit 0.4 < v \<and> v \<le> lit 0.6 \<longrightarrow> getLinkColor v = ''#ffaa00'')
   \<and> (v \<le> lit 0.4 \<longrightarrow> getLinkColor v = ''#ff6b35'')
   \<and> getLinkColor v \<in> {''#00c896'', ''#0066cc'', ''#ffaa00'', ''#ff6b35''}"
proof (intro conjI impI)
  assume "no_overflow v1 \<and> no_overflow v2 \<and> v1 \<le> v2"
  then show "getLinkWidth v1 \<le> getLinkWidth v2" by (simp add: getLinkWidth_mono)
next
  show "getLinkWidth v = nearest_double (1 + nearest_double (v * 5))"
    by (simp add: getLinkWidth_def js_add_def js_mul_def)
next
  assume "is_double (v * 5) \<and> is_double (1 + v * 5)"
  then show "getLinkWidth v = 1 + v * 5" by (simp add: getLinkWidth_exact)
next
  assume "no_overflow v"
  then show "is_double (getLinkWidth v)" by (rule getLinkWidth_is_double)
next
  assume "lit 0.8 < v"
  then show "getLinkColor v = ''#00c896''" by (simp add: getLinkColor_def)
next
  assume "lit 0.6 < v \<and> v \<le> lit 0.8"
  then show "getLinkColor v = ''#0066cc''" by (simp add: getLinkColor_def)
next
  assume a: "lit 0.4 < v \<and> v \<le> lit 0.6"
  then have "\<not> lit 0.8 < v" unfolding thresholds by simp
  then show "getLinkColor v = ''#ffaa00''" using a by (simp add: getLinkColor_def)
next
  assume a: "v \<le> lit 0.4"
  then have "\<not> lit 0.8 < v" "\<not> lit 0.6 < v" unfolding thresholds by simp_all
  then show "getLinkColor v = ''#ff6b35''" using a by (simp add: getLinkColor_def)
next
  show "getLinkColor v \<in> {''#00c896'', ''#0066cc'', ''#ffaa00'', ''#ff6b35''}"
    by (simp add: getLinkColor_def)
qed

theorem link_styling_weakly_monotone_total_witness:
  "no_overflow (lit 0.72) \<and> no_overflow (lit 0.87) \<and> lit 0.72 \<le> lit 0.87
   \<and> getLinkWidth (lit 0.72) \<le> getLinkWidth (lit 0.87)
   \<and> is_double (0.5 * 5) \<and> is_double (1 + 0.5 * 5) \<and> getLinkWidth 0.5 = 3.5
   \<and> no_overflow 0.5 \<and> is_double (getLinkWidth 0.5)
   \<and> getLinkColor (lit 0.87) = ''#00c896'' \<and> getLinkColor (lit 0.8) = ''#0066cc''
   \<and> getLinkColor (lit 0.5) = ''#ffaa00'' \<and> getLinkColor (lit 0.4) = ''#ff6b35''"
proof -
  have v: "lit 0.72 = 3242591731706757 / 4503599627370496"
    "lit 0.87 = 7836263351624663 / 9007199254740992" "lit 0.5 = 1 / 2"
    by code_simp+
  have r: "no_overflow (lit 0.72)" "no_overflow (lit 0.87)" "lit 0.72 \<le> lit 0.87"
    unfolding v no_overflow_def by simp_all
  have d: "is_double (0.5 * 5)" "is_double (1 + 0.5 * 5)"
    by (rule is_double_small, code_simp, simp)+
  have n: "no_overflow 0.5" by (simp add: no_overflow_def)
  have c: "lit 0.8 < lit 0.87" "lit 0.6 < lit 0.8" "lit 0.8 \<le> lit 0.8"
    "lit 0.4 < lit 0.5" "lit 0.5 \<le> lit 0.6" "lit 0.4 \<le> lit 0.4"
    unfolding v thresholds by simp_all
  note t = link_styling_weakly_monotone_total [of "lit 0.72" "lit 0.87" "0.5"]
  have m: "getLinkWidth (lit 0.72) \<le> getLinkWidth (lit 0.87)" using t r by blast
  have e: "getLinkWidth 0.5 = 1 + 0.5 * 5" using t d by blast
  have f: "is_double (getLinkWidth 0.5)" using t n by blast
  have c1: "getLinkColor (lit 0.87) = ''#00c896''"
    using link_styling_weakly_monotone_total [of 0 0 "lit 0.87"] c by blast
  have c2: "getLinkColor (lit 0.8) = ''#0066cc''"
    using link_styling_weakly_monotone_total [of 0 0 "lit 0.8"] c by blast
  have c3: "getLinkColor (lit 0.5) = ''#ffaa00''"
    using link_styling_weakly_monotone_total [of 0 0 "lit 0.5"] c by blast
  have c4: "getLinkColor (lit 0.4) = ''#ff6b35''"
    using link_styling_weakly_monotone_total [of 0 0 "lit 0.4"] c by blast
  have e': "getLinkWidth 0.5 = 3.5" unfolding e by simp
  show ?thesis using r d n m e' f c1 c2 c3 c4 by (intro conjI)
qed

text \<open>
  The claim as it stood, strict monotonicity, fails: the doubles \<open>2 powi (-60)\<close> and
  \<open>2 powi (-59)\<close> both get the width 1, the doubles written \<open>0.1\<close> and
  \<open>0.10000000000000002\<close> both get the width 1.5, and the width of \<open>0.1\<close> is not
  \<open>1 + 0.1 * 5\<close>.
\<close>

theorem link_width_not_strictly_monotone:
  "is_double (1 / 2 ^ 60) \<and> is_double (1 / 2 ^ 59) \<and> (1 / 2 ^ 60 :: real) < 1 / 2 ^ 59
   \<and> getLinkWidth (1 / 2 ^ 60) = 1 \<and> getLinkWidth (1 / 2 ^ 59) = 1
   \<and> \<not> getLinkWidth (1 / 2 ^ 60) < getLinkWidth (1 / 2 ^ 59)
   \<and> lit 0.1 < lit 0.10000000000000002
   \<and> getLinkWidth (lit 0.1) = 1.5 \<and> getLinkWidth (lit 0.10000000000000002) = 1.5
   \<and> \<not> getLinkWidth (lit 0.1) < getLinkWidth (lit 0.10000000000000002)
   \<and> getLinkWidth (lit 0.1) \<noteq> 1 + lit 0.1 * 5"
proof -
  have d: "is_double (1 / 2 ^ 60)" "is_double (1 / 2 ^ 59)"
    by (rule is_double_small, code_simp, simp)+
  have w: "getLinkWidth (1 / 2 ^ 60) = 1" "getLinkWidth (1 / 2 ^ 59) = 1"
    "getLinkWidth (lit 0.1) = 1.5" "getLinkWidth (lit 0.10000000000000002) = 1.5"
    by code_simp+
  have l: "lit 0.1 < lit 0.10000000000000002" "1.5 \<noteq> 1 + lit 0.1 * 5"
    by code_simp+
  show ?thesis unfolding w using d l by simp
qed

end
